theory Spec2Isabelle
  imports Main "HOL-Library.Sublist" "HOL-Library.Multiset"
begin

section \<open>Python strings\<close>

text \<open>
  A Python \<open>str\<close> is modelled as a \<open>string\<close>: a list of characters, each read as a code
  point below 256. \<open>str.lower()\<close> maps the ASCII capitals and the Latin-1 capitals
  (192 to 222, without the multiplication sign 215) to their small letters and leaves every
  other character alone.
\<close>

definition lower_char :: "char \<Rightarrow> char" where
  "lower_char c =
     (let n = (of_char c :: nat)
      in if (65 \<le> n \<and> n \<le> 90) \<or> (192 \<le> n \<and> n \<le> 222 \<and> n \<noteq> 215)
         then char_of (n + 32) else c)"

definition lower :: "string \<Rightarrow> string" where
  "lower s = map lower_char s"

text \<open>\<open>py_in sub s\<close> is Python's \<open>sub in s\<close> on strings: \<open>sub\<close> occurs in \<open>s\<close> as a
  contiguous block.\<close>

fun py_in :: "string \<Rightarrow> string \<Rightarrow> bool" where
  "py_in sub [] = (sub = [])"
| "py_in sub (c # cs) = (prefix sub (c # cs) \<or> py_in sub cs)"

text \<open>\<open>split_nl s\<close> is \<open>s.split('\n')\<close>: the pieces between line feeds; a string without a
  line feed is its own single piece.\<close>

fun split_nl :: "string \<Rightarrow> string list" where
  "split_nl [] = [[]]"
| "split_nl (c # cs) =
     (if c = CHR ''\<newline>'' then [] # split_nl cs
      else (let ls = split_nl cs in (c # hd ls) # tl ls))"

section \<open>Status normalisation (the loop bodies of \<open>get_interface_status\<close>)\<close>

text \<open>
  The NX-OS branch, source lines 66 to 86: \<open>status\<close> starts as \<open>DOWN\<close>; the first line
  whose lower-case form contains \<open>is\<close> and one of \<open>up\<close>, \<open>down\<close> decides and ends the
  loop.
\<close>

definition nxos_guard :: "string \<Rightarrow> bool" where
  "nxos_guard line_lower =
     (py_in ''is'' line_lower \<and> (py_in ''up'' line_lower \<or> py_in ''down'' line_lower))"

definition nxos_classify :: "string \<Rightarrow> string" where
  "nxos_classify line_lower =
     (if py_in ''administratively down'' line_lower then ''ADMIN_DOWN''
      else if py_in ''is up'' line_lower then
        (if py_in ''connected'' line_lower then ''UP''
         else if py_in ''notconnect'' line_lower then ''DOWN''
         else ''UP'')
      else if py_in ''is down'' line_lower then ''DOWN''
      else ''DOWN'')"

fun nxos_scan :: "string list \<Rightarrow> string" where
  "nxos_scan [] = ''DOWN''"
| "nxos_scan (line # lines) =
     (let line_lower = lower line
      in if nxos_guard line_lower then nxos_classify line_lower else nxos_scan lines)"

definition nxos_status :: "string \<Rightarrow> string" where
  "nxos_status output = nxos_scan (split_nl output)"

text \<open>
  The IOS-XR and IOS-XE branch, source lines 96 to 120: both states start as \<open>DOWN\<close>; the
  first line whose lower-case form contains \<open>line protocol is\<close> decides and ends the loop;
  the result is \<open>status/protocol_status\<close>.
\<close>

definition xr_classify :: "string \<Rightarrow> string \<times> string" where
  "xr_classify line_lower =
     (if py_in ''up'' line_lower then
        (if py_in ''administratively down'' line_lower then (''ADMIN_DOWN'', ''DOWN'')
         else (''UP'', if py_in ''line protocol is up'' line_lower then ''UP'' else ''DOWN''))
      else (''DOWN'', ''DOWN''))"

fun xr_scan :: "string list \<Rightarrow> string \<times> string" where
  "xr_scan [] = (''DOWN'', ''DOWN'')"
| "xr_scan (line # lines) =
     (let line_lower = lower line
      in if py_in ''line protocol is'' line_lower then xr_classify line_lower
         else xr_scan lines)"

definition xr_status :: "string \<Rightarrow> string" where
  "xr_status output = (case xr_scan (split_nl output) of (status, protocol_status) \<Rightarrow>
     status @ ''/'' @ protocol_status)"

section \<open>Python values and exceptions\<close>

text \<open>
  What \<open>json.loads\<close> returns: \<open>None\<close>, booleans, integers, strings, lists and
  dictionaries with string keys (an association list in insertion order, keys distinct).
  Floating-point numbers are left out of the model.
\<close>

datatype pyval =
    PNone
  | PBool bool
  | PInt int
  | PStr string
  | PList "pyval list"
  | PDict "(string \<times> pyval) list"

text \<open>
  Exceptions, each with the text \<open>str(e)\<close> gives. \<open>JSONDecodeError\<close> is the one class the
  parser catches by name; \<open>AttributeError\<close> and \<open>TypeError\<close> are what the parser's own
  operations raise on a value of the wrong type; \<open>OtherError\<close> is any other exception (of
  the transport or the decoder).
\<close>

datatype exn =
    JSONDecodeError string
  | AttributeError string
  | TypeError string
  | OtherError string

fun str_exn :: "exn \<Rightarrow> string" where
  "str_exn (JSONDecodeError m) = m"
| "str_exn (AttributeError m) = m"
| "str_exn (TypeError m) = m"
| "str_exn (OtherError m) = m"

fun py_truthy :: "pyval \<Rightarrow> bool" where
  "py_truthy PNone = False"
| "py_truthy (PBool b) = b"
| "py_truthy (PInt i) = (i \<noteq> 0)"
| "py_truthy (PStr s) = (s \<noteq> [])"
| "py_truthy (PList xs) = (xs \<noteq> [])"
| "py_truthy (PDict kvs) = (kvs \<noteq> [])"

fun type_name :: "pyval \<Rightarrow> string" where
  "type_name PNone = ''NoneType''"
| "type_name (PBool b) = ''bool''"
| "type_name (PInt i) = ''int''"
| "type_name (PStr s) = ''str''"
| "type_name (PList xs) = ''list''"
| "type_name (PDict kvs) = ''dict''"

definition quoted :: "string \<Rightarrow> string" where
  "quoted s = [CHR 0x27] @ s @ [CHR 0x27]"

text \<open>\<open>py_get obj key default\<close> is \<open>obj.get(key, default)\<close>: only a dictionary has the
  method.\<close>

fun py_get :: "pyval \<Rightarrow> string \<Rightarrow> pyval \<Rightarrow> exn + pyval" where
  "py_get (PDict kvs) key dflt =
     Inr (case map_of kvs key of Some v \<Rightarrow> v | None \<Rightarrow> dflt)"
| "py_get obj key dflt =
     Inl (AttributeError (quoted (type_name obj) @ '' object has no attribute '' @ quoted ''get''))"

text \<open>\<open>py_iter v\<close> is what \<open>for item in v\<close> runs through: the elements of a list, the keys
  of a dictionary, the one-character pieces of a string; the other values are not
  iterable.\<close>

fun py_iter :: "pyval \<Rightarrow> exn + pyval list" where
  "py_iter (PList xs) = Inr xs"
| "py_iter (PDict kvs) = Inr (map (\<lambda>kv. PStr (fst kv)) kvs)"
| "py_iter (PStr s) = Inr (map (\<lambda>c. PStr [c]) s)"
| "py_iter v = Inl (TypeError (quoted (type_name v) @ '' object is not iterable''))"

subsection \<open>Dictionaries keyed by Python values\<close>

text \<open>
  The hashable values, which can be keys of a dictionary; lists and dictionaries are not
  hashable. \<open>str_key k\<close> is \<open>str(k)\<close>, what an f-string writes for \<open>k\<close>.
\<close>

datatype pykey = KNone | KBool bool | KInt int | KStr string

fun as_key :: "pyval \<Rightarrow> pykey option" where
  "as_key PNone = Some KNone"
| "as_key (PBool b) = Some (KBool b)"
| "as_key (PInt i) = Some (KInt i)"
| "as_key (PStr s) = Some (KStr s)"
| "as_key (PList xs) = None"
| "as_key (PDict kvs) = None"

definition digit :: "nat \<Rightarrow> char" where
  "digit d = char_of (48 + d)"

function str_nat :: "nat \<Rightarrow> string" where
  "str_nat n = (if n < 10 then [digit n] else str_nat (n div 10) @ [digit (n mod 10)])"
  by pat_completeness auto
termination
  by (relation "measure id") auto

declare str_nat.simps [simp del]

definition str_int :: "int \<Rightarrow> string" where
  "str_int i = (if i < 0 then ''-'' @ str_nat (nat (- i)) else str_nat (nat i))"

fun str_key :: "pykey \<Rightarrow> string" where
  "str_key KNone = ''None''"
| "str_key (KBool b) = (if b then ''True'' else ''False'')"
| "str_key (KInt i) = str_int i"
| "str_key (KStr s) = s"

text \<open>
  A dictionary of the program is an association list in insertion order. Keys are compared
  as Python compares them: \<open>True == 1\<close> and \<open>False == 0\<close>. Storing under a key that is
  already there replaces the value and keeps the old key and its place; a new key goes
  to the end.
\<close>

fun key_norm :: "pykey \<Rightarrow> pykey" where
  "key_norm (KBool b) = KInt (if b then 1 else 0)"
| "key_norm k = k"

definition key_eq :: "pykey \<Rightarrow> pykey \<Rightarrow> bool" where
  "key_eq a b = (key_norm a = key_norm b)"

fun dict_set :: "pykey \<Rightarrow> 'v \<Rightarrow> (pykey \<times> 'v) list \<Rightarrow> (pykey \<times> 'v) list" where
  "dict_set k v [] = [(k, v)]"
| "dict_set k v ((k', v') # d) =
     (if key_eq k' k then (k', v) # d else (k', v') # dict_set k v d)"

fun dict_get :: "(pykey \<times> 'v) list \<Rightarrow> pykey \<Rightarrow> 'v option" where
  "dict_get [] k = None"
| "dict_get ((k', v') # d) k = (if key_eq k' k then Some v' else dict_get d k)"

definition dict_keys :: "(pykey \<times> 'v) list \<Rightarrow> pykey list" where
  "dict_keys d = map fst d"

section \<open>Port records and the inventory parser\<close>

record port_record =
  Description :: pyval
  PID :: pyval
  VID :: pyval
  SN :: pyval
  Operational_State :: string

type_synonym optics = "(pykey \<times> port_record) list"

subsection \<open>NX-OS: rows of the decoded JSON (source lines 20 to 34)\<close>

definition nxos_row :: "pyval \<Rightarrow> optics \<Rightarrow> exn + optics" where
  "nxos_row item optics_info =
     (case py_get item ''name'' PNone of Inl e \<Rightarrow> Inl e | Inr name \<Rightarrow>
     (case py_get item ''desc'' PNone of Inl e \<Rightarrow> Inl e | Inr descr \<Rightarrow>
     (case py_get item ''productid'' (PStr ''N/A'') of Inl e \<Rightarrow> Inl e | Inr pid \<Rightarrow>
     (case py_get item ''vid'' (PStr ''N/A'') of Inl e \<Rightarrow> Inl e | Inr vid \<Rightarrow>
     (case py_get item ''serialnum'' (PStr ''N/A'') of Inl e \<Rightarrow> Inl e | Inr sn \<Rightarrow>
        if py_truthy name \<and> py_truthy descr \<and> py_truthy pid then
          (case as_key name of
             None \<Rightarrow> Inl (TypeError (''unhashable type: '' @ quoted (type_name name)))
           | Some key \<Rightarrow>
               Inr (dict_set key
                     \<lparr>Description = descr, PID = pid, VID = vid, SN = sn,
                      Operational_State = ''Unknown''\<rparr> optics_info))
        else Inr optics_info)))))"

fun nxos_rows :: "pyval list \<Rightarrow> optics \<Rightarrow> exn + optics" where
  "nxos_rows [] optics_info = Inr optics_info"
| "nxos_rows (item # items) optics_info =
     (case nxos_row item optics_info of
        Inl e \<Rightarrow> Inl e
      | Inr optics_info' \<Rightarrow> nxos_rows items optics_info')"

definition nxos_inventory :: "pyval \<Rightarrow> exn + optics" where
  "nxos_inventory inventory_data =
     (case py_get inventory_data ''TABLE_inv'' (PDict []) of Inl e \<Rightarrow> Inl e | Inr tbl \<Rightarrow>
     (case py_get tbl ''ROW_inv'' (PList []) of Inl e \<Rightarrow> Inl e | Inr rows \<Rightarrow>
     (case py_iter rows of Inl e \<Rightarrow> Inl e | Inr items \<Rightarrow>
        nxos_rows items [])))"

subsection \<open>IOS-XR and IOS-XE: the pattern over free text (source lines 39 to 50)\<close>

text \<open>
  The pattern of the source is a sequence of literal pieces and greedy repetitions of one
  character class, five of them capturing:
  \<^verbatim>\<open>NAME: "(.*)",\s+DESCR: "(.*)"\s+PID: (\S+)\s*,\s*VID: (\S+)\s*,\s*SN: (\S+)\<close>
  \<open>Rep cls n cap\<close> is at least \<open>n\<close> characters of the class \<open>cls\<close>, as many as possible
  first, captured when \<open>cap\<close> holds.
\<close>

datatype item = Lit string | Rep "char \<Rightarrow> bool" nat bool

text \<open>\<open>\s\<close> on a \<open>str\<close> pattern is Unicode white space; below 256 these are the code
  points 9 to 13, 28 to 32, 133 and 160. \<open>.\<close> is every character but the line feed.\<close>

definition is_space :: "char \<Rightarrow> bool" where
  "is_space c = (let n = (of_char c :: nat)
     in (9 \<le> n \<and> n \<le> 13) \<or> (28 \<le> n \<and> n \<le> 32) \<or> n = 133 \<or> n = 160)"

definition not_space :: "char \<Rightarrow> bool" where
  "not_space c = (\<not> is_space c)"

definition dot :: "char \<Rightarrow> bool" where
  "dot c = (c \<noteq> CHR ''\<newline>'')"

definition pattern :: "item list" where
  "pattern =
     [Lit ''NAME: \"'', Rep dot 0 True, Lit ''\",'', Rep is_space 1 False,
      Lit ''DESCR: \"'', Rep dot 0 True, Lit ''\"'', Rep is_space 1 False,
      Lit ''PID: '', Rep not_space 1 True, Rep is_space 0 False, Lit '','', Rep is_space 0 False,
      Lit ''VID: '', Rep not_space 1 True, Rep is_space 0 False, Lit '','', Rep is_space 0 False,
      Lit ''SN: '', Rep not_space 1 True]"

text \<open>
  Backtracking: a repetition first takes the longest run of its class, \<open>n\<close> characters,
  and gives characters back one at a time, down to its minimum \<open>mn\<close>, until the rest of
  the pattern (\<open>k\<close>) matches what follows.
\<close>

fun backtrack ::
  "(string \<Rightarrow> (string list \<times> string) option) \<Rightarrow> bool \<Rightarrow> nat \<Rightarrow> nat \<Rightarrow> string
     \<Rightarrow> (string list \<times> string) option" where
  "backtrack k cap mn 0 s =
     (if 0 < mn then None
      else (case k s of
              Some (caps, rest) \<Rightarrow> Some (if cap then [] # caps else caps, rest)
            | None \<Rightarrow> None))"
| "backtrack k cap mn (Suc n) s =
     (if Suc n < mn then None
      else (case k (drop (Suc n) s) of
              Some (caps, rest) \<Rightarrow> Some (if cap then take (Suc n) s # caps else caps, rest)
            | None \<Rightarrow> backtrack k cap mn n s))"

text \<open>\<open>match_items its s\<close> matches the pattern \<open>its\<close> at the start of \<open>s\<close> and returns the
  captured groups and what is left of \<open>s\<close> after the match.\<close>

primrec match_items :: "item list \<Rightarrow> string \<Rightarrow> (string list \<times> string) option" where
  "match_items [] s = Some ([], s)"
| "match_items (it # its) s =
     (case it of
        Lit l \<Rightarrow> if prefix l s then match_items its (drop (length l) s) else None
      | Rep cls mn cap \<Rightarrow> backtrack (match_items its) cap mn (length (takeWhile cls s)) s)"

text \<open>\<open>re.finditer\<close>: the matches from left to right, each search starting where the
  match before it ended; where no match starts, the search moves on by one character. A
  match of the pattern is never empty, which is why the scan ends; the proof follows the
  definitions.\<close>

function finditer :: "string \<Rightarrow> string list list" where
  "finditer s =
     (case match_items pattern s of
        Some (caps, rest) \<Rightarrow> caps # finditer rest
      | None \<Rightarrow> (case s of [] \<Rightarrow> [] | c # cs \<Rightarrow> finditer cs))"
  by pat_completeness auto

definition keep_name :: "string \<Rightarrow> bool" where
  "keep_name name =
     (py_in ''port'' (lower name) \<or> py_in ''GigE'' name \<or> py_in ''TenGigE'' name)"

fun text_rows :: "string list list \<Rightarrow> optics \<Rightarrow> optics" where
  "text_rows [] optics_info = optics_info"
| "text_rows (groups # matches) optics_info =
     (case groups of
        [name, descr, pid, vid, sn] \<Rightarrow>
          text_rows matches
            (if keep_name name then
               dict_set (KStr name)
                 \<lparr>Description = PStr descr, PID = PStr pid, VID = PStr vid, SN = PStr sn,
                  Operational_State = ''Unknown''\<rparr> optics_info
             else optics_info)
      | _ \<Rightarrow> text_rows matches optics_info)"

subsection \<open>\<open>parse_inventory_output\<close>\<close>

text \<open>
  \<open>loads\<close> stands for \<open>json.loads\<close>, a library function: it returns the decoded value or
  raises. Only a \<open>JSONDecodeError\<close> is caught (source line 35); then the result is the
  empty dictionary the function started with.
\<close>

definition parse_inventory_output ::
  "(string \<Rightarrow> exn + pyval) \<Rightarrow> string \<Rightarrow> string \<Rightarrow> exn + optics" where
  "parse_inventory_output loads output platform =
     (if platform = ''cisco_nxos'' then
        (case loads output of
           Inl (JSONDecodeError m) \<Rightarrow> Inr []
         | Inl e \<Rightarrow> Inl e
         | Inr inventory_data \<Rightarrow> nxos_inventory inventory_data)
      else Inr (text_rows (finditer output) []))"

section \<open>The transport and the session state\<close>

text \<open>
  The transport (\<open>ConnectHandler\<close>, \<open>send_command\<close>, \<open>disconnect\<close>) is outside the
  repository. It is a parameter: three operations over a state \<open>'w\<close> of the device and
  its session, each returning a value or raising. The model keeps, beside that state,
  the list of the calls made so far.
\<close>

record 'p device_info =
  device_type :: "string option"
  conn_params :: 'p

record ('p, 'c, 'w) transport =
  t_connect :: "'p device_info \<Rightarrow> 'w \<Rightarrow> (exn + 'c) \<times> 'w"
  t_send :: "'c \<Rightarrow> string \<Rightarrow> 'w \<Rightarrow> (exn + string) \<times> 'w"
  t_disconnect :: "'c \<Rightarrow> 'w \<Rightarrow> (exn + unit) \<times> 'w"

datatype event = Connect | Send string | Disconnect

type_synonym 'w session = "'w \<times> event list"

definition get_device_connection ::
  "('p, 'c, 'w) transport \<Rightarrow> 'p device_info \<Rightarrow> 'w session \<Rightarrow> (exn + 'c) \<times> 'w session" where
  "get_device_connection tr device_info st =
     (case t_connect tr device_info (fst st) of
        (r, w') \<Rightarrow> (r, (w', snd st @ [Connect])))"

definition send_command ::
  "('p, 'c, 'w) transport \<Rightarrow> 'c \<Rightarrow> string \<Rightarrow> 'w session \<Rightarrow> (exn + string) \<times> 'w session" where
  "send_command tr connection command st =
     (case t_send tr connection command (fst st) of
        (r, w') \<Rightarrow> (r, (w', snd st @ [Send command])))"

definition disconnect ::
  "('p, 'c, 'w) transport \<Rightarrow> 'c \<Rightarrow> 'w session \<Rightarrow> (exn + unit) \<times> 'w session" where
  "disconnect tr connection st =
     (case t_disconnect tr connection (fst st) of
        (r, w') \<Rightarrow> (r, (w', snd st @ [Disconnect])))"

section \<open>\<open>get_interface_status\<close>\<close>

text \<open>
  One \<open>show interface\<close> command per name, each inside its own \<open>try\<close>: an exception of
  the command stores \<open>ERROR\<close> for that name and the loop goes on (source lines 58 to 127).
  On a platform that is none of the three, nothing is sent and nothing is stored.
\<close>

definition status_command :: "pykey \<Rightarrow> string" where
  "status_command intf_name = ''show interface '' @ str_key intf_name"

fun status_loop ::
  "('p, 'c, 'w) transport \<Rightarrow> 'c \<Rightarrow> string \<Rightarrow> pykey list \<Rightarrow> (pykey \<times> string) list
     \<Rightarrow> 'w session \<Rightarrow> (pykey \<times> string) list \<times> 'w session" where
  "status_loop tr connection platform [] interface_status st = (interface_status, st)"
| "status_loop tr connection platform (intf_name # names) interface_status st =
     (if platform = ''cisco_nxos'' then
        (case send_command tr connection (status_command intf_name) st of
           (Inl e, st') \<Rightarrow>
             status_loop tr connection platform names
               (dict_set intf_name ''ERROR'' interface_status) st'
         | (Inr output, st') \<Rightarrow>
             status_loop tr connection platform names
               (dict_set intf_name (nxos_status output) interface_status) st')
      else if platform = ''cisco_xr'' \<or> platform = ''cisco_xe'' then
        (case send_command tr connection (status_command intf_name) st of
           (Inl e, st') \<Rightarrow>
             status_loop tr connection platform names
               (dict_set intf_name ''ERROR'' interface_status) st'
         | (Inr output, st') \<Rightarrow>
             status_loop tr connection platform names
               (dict_set intf_name (xr_status output) interface_status) st')
      else status_loop tr connection platform names interface_status st)"

definition get_interface_status ::
  "('p, 'c, 'w) transport \<Rightarrow> 'c \<Rightarrow> string \<Rightarrow> pykey list \<Rightarrow> 'w session
     \<Rightarrow> (pykey \<times> string) list \<times> 'w session" where
  "get_interface_status tr connection platform interface_names st =
     status_loop tr connection platform interface_names [] st"

section \<open>\<open>process_device\<close>\<close>

text \<open>The merge of source lines 198 to 201: every record gets the state stored for its
  name, \<open>Unknown\<close> when none is stored.\<close>

definition merge_status :: "optics \<Rightarrow> (pykey \<times> string) list \<Rightarrow> optics" where
  "merge_status optics_info interface_status =
     map (\<lambda>(interface_name, details).
            (interface_name,
             details\<lparr>Operational_State :=
               (case dict_get interface_status interface_name of
                  Some status \<Rightarrow> status
                | None \<Rightarrow> ''Unknown'')\<rparr>))
         optics_info"

text \<open>
  Source lines 184 to 201, the inventory and status work of one device: the inventory
  command, the parser, and for a non-empty result the status queries and the merge. An
  exception of the inventory command or of the parser leaves the block.
\<close>

definition inventory_and_status ::
  "('p, 'c, 'w) transport \<Rightarrow> (string \<Rightarrow> exn + pyval) \<Rightarrow> 'c \<Rightarrow> string \<Rightarrow> string
     \<Rightarrow> 'w session \<Rightarrow> (exn + optics) \<times> 'w session" where
  "inventory_and_status tr loads connection platform command st =
     (case send_command tr connection command st of
        (Inl e, st') \<Rightarrow> (Inl e, st')
      | (Inr output, st') \<Rightarrow>
          (case parse_inventory_output loads output platform of
             Inl e \<Rightarrow> (Inl e, st')
           | Inr optics_info \<Rightarrow>
               if optics_info \<noteq> [] then
                 (case get_interface_status tr connection platform (dict_keys optics_info) st' of
                    (interface_status, st'') \<Rightarrow>
                      (Inr (merge_status optics_info interface_status), st''))
               else (Inr optics_info, st')))"

definition inventory_command :: "string \<Rightarrow> string option" where
  "inventory_command platform =
     (if platform = ''cisco_xr'' then Some ''show inventory''
      else if platform = ''cisco_xe'' then Some ''show inventory''
      else if platform = ''cisco_nxos'' then Some ''show inventory all | json''
      else None)"

text \<open>\<open>str_platform\<close> is what the f-string of line 182 writes for the platform tag, which
  is \<open>None\<close> when the device has no \<open>device_type\<close>.\<close>

definition str_platform :: "string option \<Rightarrow> string" where
  "str_platform platform = (case platform of None \<Rightarrow> ''None'' | Some s \<Rightarrow> s)"

type_synonym outcome = "string \<times> optics \<times> string option"

definition unsupported :: "string \<Rightarrow> string option \<Rightarrow> outcome" where
  "unsupported device_name platform =
     (device_name, [], Some (''Unsupported platform: '' @ str_platform platform))"

text \<open>
  The body of the \<open>try\<close> of \<open>process_device\<close> (source lines 169 to 207): it returns a
  triple, or an exception leaves it. The session is opened before the platform tag is
  looked at; on an unsupported tag the function returns at once (line 182), without a
  command and without closing the session.
\<close>

definition process_device_try ::
  "('p, 'c, 'w) transport \<Rightarrow> (string \<Rightarrow> exn + pyval) \<Rightarrow> string \<Rightarrow> 'p device_info
     \<Rightarrow> 'w session \<Rightarrow> (exn + outcome) \<times> 'w session" where
  "process_device_try tr loads device_name device_info st =
     (case get_device_connection tr device_info st of
        (Inl e, st1) \<Rightarrow> (Inl e, st1)
      | (Inr connection, st1) \<Rightarrow>
          (case device_type device_info of
             None \<Rightarrow> (Inr (unsupported device_name None), st1)
           | Some platform \<Rightarrow>
               (case inventory_command platform of
                  None \<Rightarrow> (Inr (unsupported device_name (Some platform)), st1)
                | Some command \<Rightarrow>
                    (case inventory_and_status tr loads connection platform command st1 of
                       (Inl e, st2) \<Rightarrow> (Inl e, st2)
                     | (Inr optics_info, st2) \<Rightarrow>
                         (case disconnect tr connection st2 of
                            (Inl e, st3) \<Rightarrow> (Inl e, st3)
                          | (Inr u, st3) \<Rightarrow>
                              (Inr (device_name, optics_info, None), st3))))))"

text \<open>\<open>process_device\<close> with its handler (source lines 209 to 212): every exception of
  the body becomes the triple of the name, an empty dictionary and \<open>str(e)\<close>.\<close>

definition process_device ::
  "('p, 'c, 'w) transport \<Rightarrow> (string \<Rightarrow> exn + pyval) \<Rightarrow> string \<Rightarrow> 'p device_info
     \<Rightarrow> 'w session \<Rightarrow> outcome \<times> 'w session" where
  "process_device tr loads device_name device_info st =
     (case process_device_try tr loads device_name device_info st of
        (Inl e, st') \<Rightarrow> ((device_name, [], Some (str_exn e)), st')
      | (Inr result, st') \<Rightarrow> (result, st'))"

section \<open>The batch (\<open>main\<close>, source lines 222 to 250)\<close>

text \<open>
  The two dictionaries of \<open>main\<close>: \<open>optics_data\<close> and \<open>failed_connections\<close>. A result is
  stored by the truth value of its error message: \<open>None\<close> and the empty string are false.
\<close>

record report =
  optics_data :: "string \<rightharpoonup> optics"
  failed_connections :: "string \<rightharpoonup> string"

definition store_result :: "outcome \<Rightarrow> report \<Rightarrow> report" where
  "store_result result rep =
     (case result of (name, optics_info, error_message) \<Rightarrow>
        (case error_message of
           Some m \<Rightarrow>
             if m \<noteq> [] then rep\<lparr>failed_connections := (failed_connections rep)(name \<mapsto> m)\<rparr>
             else rep\<lparr>optics_data := (optics_data rep)(name \<mapsto> optics_info)\<rparr>
         | None \<Rightarrow> rep\<lparr>optics_data := (optics_data rep)(name \<mapsto> optics_info)\<rparr>))"

text \<open>
  The devices run in a pool of threads, each with a session of its own, and \<open>main\<close>
  takes the results as they complete. The model runs \<open>process_device\<close> for the devices
  in the order of completion, \<open>completed\<close> (any order of the roster's entries), each from
  the state \<open>world name\<close> its transport is in, with no call made yet. Printing is left
  out; \<open>process_device\<close> catches every exception, so the handler of line 248 has nothing
  to catch here.
\<close>

definition run_device ::
  "('p, 'c, 'w) transport \<Rightarrow> (string \<Rightarrow> exn + pyval) \<Rightarrow> (string \<Rightarrow> 'w)
     \<Rightarrow> string \<times> 'p device_info \<Rightarrow> outcome" where
  "run_device tr loads world dev =
     fst (process_device tr loads (fst dev) (snd dev) (world (fst dev), []))"

fun collect ::
  "('p, 'c, 'w) transport \<Rightarrow> (string \<Rightarrow> exn + pyval) \<Rightarrow> (string \<Rightarrow> 'w)
     \<Rightarrow> (string \<times> 'p device_info) list \<Rightarrow> report \<Rightarrow> report" where
  "collect tr loads world [] rep = rep"
| "collect tr loads world (dev # completed) rep =
     collect tr loads world completed (store_result (run_device tr loads world dev) rep)"

definition main_batch ::
  "('p, 'c, 'w) transport \<Rightarrow> (string \<Rightarrow> exn + pyval) \<Rightarrow> (string \<Rightarrow> 'w)
     \<Rightarrow> (string \<times> 'p device_info) list \<Rightarrow> report" where
  "main_batch tr loads world completed =
     collect tr loads world completed \<lparr>optics_data = Map.empty, failed_connections = Map.empty\<rparr>"

section \<open>Describing a run\<close>

text \<open>
  Two functions used only to state properties. \<open>status_replies\<close> lists what the transport
  answers to the status command of each interface, in the order of the queries, each from
  the state the query before it left. \<open>state_of_reply\<close> is the state a reply stands for:
  \<open>ERROR\<close> for an exception, the normalised status text otherwise.
\<close>

fun status_replies ::
  "('p, 'c, 'w) transport \<Rightarrow> 'c \<Rightarrow> pykey list \<Rightarrow> 'w session \<Rightarrow> (exn + string) list" where
  "status_replies tr connection [] st = []"
| "status_replies tr connection (intf_name # names) st =
     (case send_command tr connection (status_command intf_name) st of
        (r, st') \<Rightarrow> r # status_replies tr connection names st')"

definition state_of_reply :: "string \<Rightarrow> exn + string \<Rightarrow> string" where
  "state_of_reply platform r =
     (case r of
        Inl e \<Rightarrow> ''ERROR''
      | Inr output \<Rightarrow> if platform = ''cisco_nxos'' then nxos_status output else xr_status output)"

definition supported :: "string \<Rightarrow> bool" where
  "supported platform =
     (platform = ''cisco_xr'' \<or> platform = ''cisco_xe'' \<or> platform = ''cisco_nxos'')"

definition keys_distinct :: "(pykey \<times> 'v) list \<Rightarrow> bool" where
  "keys_distinct d = distinct (map (\<lambda>kv. key_norm (fst kv)) d)"

section \<open>Sample inputs\<close>

text \<open>
  A transport for the examples: its state is a script that says whether opening and
  closing the session raise, and lists the replies to the commands in the order they
  will be sent.
\<close>

record script =
  on_connect :: "exn option"
  replies :: "(exn + string) list"
  on_disconnect :: "exn option"

definition scripted :: "(unit, unit, script) transport" where
  "scripted =
     \<lparr>t_connect = (\<lambda>info w. (case on_connect w of Some e \<Rightarrow> Inl e | None \<Rightarrow> Inr (), w)),
      t_send = (\<lambda>c command w.
        case replies w of
          [] \<Rightarrow> (Inl (OtherError ''no reply''), w)
        | r # rs \<Rightarrow> (r, w\<lparr>replies := rs\<rparr>)),
      t_disconnect = (\<lambda>c w. (case on_disconnect w of Some e \<Rightarrow> Inl e | None \<Rightarrow> Inr (), w))\<rparr>"

definition device :: "string \<Rightarrow> unit device_info" where
  "device platform = \<lparr>device_type = Some platform, conn_params = ()\<rparr>"

text \<open>An IOS-XR inventory text with two blocks, a chassis and an optical port.\<close>

definition xr_inventory :: string where
  "xr_inventory =
     ''NAME: \"chassis\", DESCR: \"ASR 9006 Chassis\"\<newline>'' @
     ''PID: ASR-9006-AC, VID: V01, SN: FOX1234ABCD\<newline>'' @
     ''\<newline>'' @
     ''NAME: \"TenGigE0/0/0/1\", DESCR: \"10GBASE-LR SFP+\"\<newline>'' @
     ''PID: SFP-10G-LR , VID: V02 , SN: ABC123\<newline>''"

text \<open>NX-OS inventory texts and what \<open>json.loads\<close> returns for them. \<open>sample_loads\<close> is
  the decoder at the texts of this section; at any other text it answers as the decoder
  does at a text that is not JSON.\<close>

definition json_no_pid :: string where
  "json_no_pid =
     ''{\"TABLE_inv\": {\"ROW_inv\": [{\"name\": \"Ethernet1/1\", \"desc\": \"10G SFP\"}]}}''"

definition json_rows :: string where
  "json_rows =
     ''{\"TABLE_inv\": {\"ROW_inv\": ['' @
     ''{\"name\": \"Ethernet1/1\", \"desc\": \"10G SFP\", \"productid\": \"SFP-10G-SR\", '' @
     ''\"vid\": \"V03\", \"serialnum\": \"S1\"}, '' @
     ''{\"name\": \"Ethernet1/2\", \"productid\": \"SFP-10G-SR\"}, '' @
     ''{\"name\": \"Ethernet1/3\", \"desc\": \"10G SFP\", \"productid\": \"\"}, '' @
     ''{\"name\": \"Ethernet1/4\", \"desc\": \"1G SFP\"}]}}''"

definition rows_sample :: "pyval list" where
  "rows_sample =
     [PDict [(''name'', PStr ''Ethernet1/1''), (''desc'', PStr ''10G SFP''),
             (''productid'', PStr ''SFP-10G-SR''), (''vid'', PStr ''V03''),
             (''serialnum'', PStr ''S1'')],
      PDict [(''name'', PStr ''Ethernet1/2''), (''productid'', PStr ''SFP-10G-SR'')],
      PDict [(''name'', PStr ''Ethernet1/3''), (''desc'', PStr ''10G SFP''),
             (''productid'', PStr [])],
      PDict [(''name'', PStr ''Ethernet1/4''), (''desc'', PStr ''1G SFP'')]]"

definition sample_loads :: "string \<Rightarrow> exn + pyval" where
  "sample_loads s =
     (if s = ''[]'' then Inr (PList [])
      else if s = json_no_pid then
        Inr (PDict [(''TABLE_inv'', PDict [(''ROW_inv'',
               PList [PDict [(''name'', PStr ''Ethernet1/1''), (''desc'', PStr ''10G SFP'')]])])])
      else if s = json_rows then
        Inr (PDict [(''TABLE_inv'', PDict [(''ROW_inv'', PList rows_sample)])])
      else Inl (JSONDecodeError ''Expecting value: line 1 column 1 (char 0)''))"


definition sample_world :: "string \<Rightarrow> script" where
  "sample_world name =
     (if name = ''r1'' then
        \<lparr>on_connect = None,
         replies = [Inr xr_inventory, Inr ''TenGigE0/0/0/1 is up, line protocol is up''],
         on_disconnect = None\<rparr>
      else if name = ''n1'' then
        \<lparr>on_connect = None,
         replies = [Inr json_rows, Inl (OtherError ''timed out''),
                    Inr ''Ethernet1/4 is up\<newline>admin state is up''],
         on_disconnect = None\<rparr>
      else \<lparr>on_connect = None, replies = [], on_disconnect = None\<rparr>)"

section \<open>The scan for matches ends\<close>

lemma backtrack_length:
  assumes "\<And>t r. k t = Some r \<Longrightarrow> length (snd r) \<le> length t"
    and "backtrack k cap mn n s = Some r"
  shows "length (snd r) \<le> length s"
  using assms(2)
proof (induction n)
  case 0
  then show ?case
    using assms(1) [of s] by (auto split: if_splits option.splits)
next
  case (Suc n)
  then show ?case
    using assms(1) [of "drop (Suc n) s"]
    by (fastforce split: if_splits option.splits)
qed

lemma match_items_length:
  "match_items its s = Some r \<Longrightarrow> length (snd r) \<le> length s"
proof (induction its arbitrary: s r)
  case Nil
  then show ?case by auto
next
  case (Cons it its)
  show ?case
  proof (cases it)
    case (Lit l)
    with Cons.prems have "match_items its (drop (length l) s) = Some r"
      by (auto split: if_splits)
    from Cons.IH [OF this] show ?thesis by simp
  next
    case (Rep cls mn cap)
    with Cons.prems
    have "backtrack (match_items its) cap mn (length (takeWhile cls s)) s = Some r"
      by simp
    then show ?thesis
      by (rule backtrack_length [rotated]) (rule Cons.IH)
  qed
qed

lemma match_pattern_shorter:
  assumes "match_items pattern s = Some (caps, rest)"
  shows "length rest < length s"
proof -
  define l where "l = ''NAME: \"''"
  obtain its where p: "pattern = Lit l # its"
    by (simp add: pattern_def l_def)
  from assms have "match_items (Lit l # its) s = Some (caps, rest)"
    by (simp only: p)
  then have pre: "prefix l s"
    and m: "match_items its (drop (length l) s) = Some (caps, rest)"
    by (auto split: if_splits)
  from pre have "length l \<le> length s"
    by (rule prefix_length_le)
  moreover from match_items_length [OF m] have "length rest \<le> length s - length l"
    by simp
  moreover have "0 < length l"
    by (simp add: l_def)
  ultimately show ?thesis by linarith
qed

termination finditer
  by (relation "measure length") (auto simp: match_pattern_shorter)

declare finditer.simps [simp del]

section \<open>Dictionaries: properties\<close>

lemma key_eq_refl [simp]: "key_eq k k"
  by (simp add: key_eq_def)

lemma dict_get_dict_set:
  "dict_get (dict_set k v d) k' = (if key_eq k k' then Some v else dict_get d k')"
  by (induction d) (auto simp: key_eq_def)

lemma dict_keys_dict_set:
  "map (\<lambda>kv. key_norm (fst kv)) (dict_set k v d) =
     (if key_norm k \<in> set (map (\<lambda>kv. key_norm (fst kv)) d)
      then map (\<lambda>kv. key_norm (fst kv)) d
      else map (\<lambda>kv. key_norm (fst kv)) d @ [key_norm k])"
  by (induction d) (force simp: key_eq_def)+

lemma keys_distinct_dict_set:
  "keys_distinct d \<Longrightarrow> keys_distinct (dict_set k v d)"
  by (simp add: keys_distinct_def dict_keys_dict_set)

lemma dict_set_fresh:
  "key_norm k \<notin> set (map (\<lambda>kv. key_norm (fst kv)) d) \<Longrightarrow> dict_set k v d = d @ [(k, v)]"
  by (induction d) (auto simp: key_eq_def)

lemma nxos_row_distinct:
  "nxos_row item d = Inr d' \<Longrightarrow> keys_distinct d \<Longrightarrow> keys_distinct d'"
  by (auto simp: nxos_row_def keys_distinct_dict_set split: sum.splits if_splits option.splits)

lemma nxos_rows_distinct:
  "nxos_rows items d = Inr d' \<Longrightarrow> keys_distinct d \<Longrightarrow> keys_distinct d'"
  by (induction items arbitrary: d) (auto split: sum.splits dest: nxos_row_distinct)

lemma text_rows_distinct:
  "keys_distinct d \<Longrightarrow> keys_distinct (text_rows ms d)"
  by (induction ms arbitrary: d) (auto simp: keys_distinct_dict_set split: list.splits)

lemma parse_distinct:
  "parse_inventory_output loads output platform = Inr d \<Longrightarrow> keys_distinct d"
proof -
  have e: "keys_distinct ([] :: optics)"
    by (simp add: keys_distinct_def)
  assume "parse_inventory_output loads output platform = Inr d"
  then show ?thesis
    using e text_rows_distinct [OF e] nxos_rows_distinct [OF _ e]
    by (auto simp: parse_inventory_output_def nxos_inventory_def
        split: if_splits sum.splits exn.splits)
qed

section \<open>The status loop and the merge: properties\<close>

lemma length_status_replies [simp]:
  "length (status_replies tr c names st) = length names"
  by (induction names arbitrary: st) (auto split: prod.splits)

lemma status_loop_result:
  assumes "supported platform"
    and "distinct (map key_norm names)"
    and "set (map key_norm names) \<inter> set (map (\<lambda>kv. key_norm (fst kv)) acc) = {}"
  shows "fst (status_loop tr c platform names acc st) =
           acc @ zip names (map (state_of_reply platform) (status_replies tr c names st))"
  using assms(2,3)
proof (induction names arbitrary: acc st)
  case Nil
  then show ?case by simp
next
  case (Cons n names)
  obtain r st' where s: "send_command tr c (status_command n) st = (r, st')"
    by (cases "send_command tr c (status_command n) st")
  let ?v = "state_of_reply platform r"
  from Cons.prems have fresh: "key_norm n \<notin> set (map (\<lambda>kv. key_norm (fst kv)) acc)"
    by auto
  then have upd: "dict_set n ?v acc = acc @ [(n, ?v)]"
    by (rule dict_set_fresh)
  from Cons.prems have d: "distinct (map key_norm names)"
    and i: "set (map key_norm names) \<inter> set (map (\<lambda>kv. key_norm (fst kv)) (acc @ [(n, ?v)])) = {}"
    by auto
  have "status_loop tr c platform (n # names) acc st =
        status_loop tr c platform names (dict_set n ?v acc) st'"
    using assms(1) s
    by (cases r) (auto simp: supported_def state_of_reply_def)
  then show ?case
    using Cons.IH [OF d i, of st'] s upd by simp
qed

lemma status_loop_log:
  assumes "supported platform"
  shows "snd (snd (status_loop tr c platform names acc st)) =
           snd st @ map (\<lambda>n. Send (status_command n)) names"
proof (induction names arbitrary: acc st)
  case Nil
  then show ?case by simp
next
  case (Cons n names)
  obtain r st' where s: "send_command tr c (status_command n) st = (r, st')"
    by (cases "send_command tr c (status_command n) st")
  then have l: "snd st' = snd st @ [Send (status_command n)]"
    by (auto simp: send_command_def split: prod.splits)
  show ?case
    using assms s l Cons.IH [of _ st']
    by (cases r) (auto simp: supported_def)
qed

lemma dict_get_zip:
  assumes "distinct (map key_norm ks)" and "length ks = length vs" and "i < length ks"
  shows "dict_get (zip ks vs) (ks ! i) = Some (vs ! i)"
  using assms(2,1,3)
proof (induction ks vs arbitrary: i rule: list_induct2)
  case Nil
  then show ?case by simp
next
  case (Cons k ks v vs)
  show ?case
  proof (cases i)
    case 0
    then show ?thesis by simp
  next
    case (Suc j)
    with Cons.prems have j: "j < length ks"
      by simp
    then have "ks ! j \<in> set ks"
      by simp
    moreover from Cons.prems have "key_norm k \<notin> key_norm ` set ks"
      by simp
    ultimately have "key_norm (ks ! j) \<noteq> key_norm k"
      by (metis imageI)
    note j this
    with Cons Suc show ?thesis
      by (auto simp: key_eq_def)
  qed
qed

lemma merge_status_zip:
  assumes "keys_distinct optics_info" and "length vs = length optics_info"
    and "i < length optics_info"
  shows "merge_status optics_info (zip (dict_keys optics_info) vs) ! i =
           (fst (optics_info ! i), (snd (optics_info ! i))\<lparr>Operational_State := vs ! i\<rparr>)"
proof -
  have d: "distinct (map key_norm (dict_keys optics_info))"
    using assms(1) by (simp add: keys_distinct_def dict_keys_def comp_def)
  have "dict_get (zip (dict_keys optics_info) vs) (dict_keys optics_info ! i) = Some (vs ! i)"
    using d assms(2,3) by (intro dict_get_zip) (simp_all add: dict_keys_def)
  then show ?thesis
    using assms(3) by (cases "optics_info ! i") (simp add: merge_status_def dict_keys_def)
qed

section \<open>\<open>process_device\<close>: the ways through it\<close>

lemma inventory_command_unsupported:
  "\<not> supported platform \<Longrightarrow> inventory_command platform = None"
  by (simp add: inventory_command_def supported_def)

lemma inventory_command_supported:
  "supported platform \<Longrightarrow> \<exists>command. inventory_command platform = Some command"
  by (auto simp: inventory_command_def supported_def)

lemma process_device_name:
  "fst (fst (process_device tr loads device_name device_info st)) = device_name"
  by (simp add: process_device_def process_device_try_def unsupported_def
      split: prod.splits sum.splits option.splits)

lemma process_device_connect_raises:
  assumes "get_device_connection tr device_info st = (Inl e, st1)"
  shows "process_device tr loads device_name device_info st =
           ((device_name, [], Some (str_exn e)), st1)"
  using assms by (simp add: process_device_def process_device_try_def)

lemma process_device_unsupported:
  assumes "get_device_connection tr device_info st = (Inr c, st1)"
    and "\<forall>p. device_type device_info = Some p \<longrightarrow> \<not> supported p"
  shows "process_device tr loads device_name device_info st =
           (unsupported device_name (device_type device_info), st1)"
  using assms
  by (cases "device_type device_info")
    (simp_all add: process_device_def process_device_try_def inventory_command_unsupported)

lemma process_device_work_raises:
  assumes "get_device_connection tr device_info st = (Inr c, st1)"
    and "device_type device_info = Some platform"
    and "inventory_command platform = Some command"
    and "inventory_and_status tr loads c platform command st1 = (Inl e, st2)"
  shows "process_device tr loads device_name device_info st =
           ((device_name, [], Some (str_exn e)), st2)"
  using assms by (simp add: process_device_def process_device_try_def)

lemma process_device_disconnect:
  assumes "get_device_connection tr device_info st = (Inr c, st1)"
    and "device_type device_info = Some platform"
    and "inventory_command platform = Some command"
    and "inventory_and_status tr loads c platform command st1 = (Inr optics_info, st2)"
    and "disconnect tr c st2 = (r, st3)"
  shows "process_device tr loads device_name device_info st =
           ((case r of Inl e \<Rightarrow> (device_name, [], Some (str_exn e))
                     | Inr u \<Rightarrow> (device_name, optics_info, None)), st3)"
  using assms by (cases r) (simp_all add: process_device_def process_device_try_def)

lemma connect_log:
  "get_device_connection tr device_info st = (r, st1) \<Longrightarrow> snd st1 = snd st @ [Connect]"
  by (auto simp: get_device_connection_def split: prod.splits)

lemma send_log:
  "send_command tr c command st = (r, st1) \<Longrightarrow> snd st1 = snd st @ [Send command]"
  by (auto simp: send_command_def split: prod.splits)

lemma disconnect_log:
  "disconnect tr c st = (r, st1) \<Longrightarrow> snd st1 = snd st @ [Disconnect]"
  by (auto simp: disconnect_def split: prod.splits)

section \<open>Status normalisation: properties\<close>

lemma nxos_scan_first:
  assumes "\<forall>x \<in> set pre. \<not> nxos_guard (lower x)" and "nxos_guard (lower l)"
  shows "nxos_scan (pre @ l # post) = nxos_classify (lower l)"
  using assms by (induction pre) (simp_all add: Let_def)

lemma nxos_scan_none:
  assumes "\<forall>x \<in> set lines. \<not> nxos_guard (lower x)"
  shows "nxos_scan lines = ''DOWN''"
  using assms by (induction lines) (simp_all add: Let_def)

section \<open>The sample inventory, evaluated\<close>

lemma finditer_xr_inventory:
  "finditer xr_inventory =
     [[''chassis'', ''ASR 9006 Chassis'', ''ASR-9006-AC'', ''V01'', ''FOX1234ABCD''],
      [''TenGigE0/0/0/1'', ''10GBASE-LR SFP+'', ''SFP-10G-LR'', ''V02'', ''ABC123'']]"
  by code_simp

lemma parse_xr_inventory:
  "parse_inventory_output loads xr_inventory ''cisco_xr'' =
     Inr [(KStr ''TenGigE0/0/0/1'',
           \<lparr>Description = PStr ''10GBASE-LR SFP+'', PID = PStr ''SFP-10G-LR'',
            VID = PStr ''V02'', SN = PStr ''ABC123'', Operational_State = ''Unknown''\<rparr>)]"
  by (simp add: parse_inventory_output_def finditer_xr_inventory keep_name_def lower_def
      lower_char_def)

section \<open>The batch: properties\<close>

lemma collect_append:
  "collect tr loads world (xs @ ys) rep = collect tr loads world ys (collect tr loads world xs rep)"
  by (induction xs arbitrary: rep) simp_all

lemma run_device_name: "fst (run_device tr loads world dev) = fst dev"
  by (simp add: run_device_def process_device_name)

lemma store_result_other:
  assumes "fst result \<noteq> n"
  shows "optics_data (store_result result rep) n = optics_data rep n"
    and "failed_connections (store_result result rep) n = failed_connections rep n"
  using assms by (auto simp: store_result_def split: prod.splits option.splits)

lemma collect_other:
  assumes "n \<notin> fst ` set completed"
  shows "optics_data (collect tr loads world completed rep) n = optics_data rep n
       \<and> failed_connections (collect tr loads world completed rep) n = failed_connections rep n"
  using assms
proof (induction completed arbitrary: rep)
  case Nil
  then show ?case by simp
next
  case (Cons dev completed)
  then have "fst (run_device tr loads world dev) \<noteq> n"
    by (auto simp: run_device_name)
  with Cons show ?case
    by (simp add: store_result_other)
qed

lemma collect_at:
  assumes "distinct (map fst completed)" and "dev \<in> set completed"
  shows "\<exists>rep'. optics_data rep' (fst dev) = optics_data rep (fst dev)
       \<and> failed_connections rep' (fst dev) = failed_connections rep (fst dev)
       \<and> optics_data (collect tr loads world completed rep) (fst dev)
           = optics_data (store_result (run_device tr loads world dev) rep') (fst dev)
       \<and> failed_connections (collect tr loads world completed rep) (fst dev)
           = failed_connections (store_result (run_device tr loads world dev) rep') (fst dev)"
proof -
  from assms(2) obtain pre post where s: "completed = pre @ dev # post"
    by (auto simp: in_set_conv_decomp)
  with assms(1) have a: "fst dev \<notin> fst ` set pre" and b: "fst dev \<notin> fst ` set post"
    by auto
  let ?rep' = "collect tr loads world pre rep"
  have "collect tr loads world completed rep
      = collect tr loads world post (store_result (run_device tr loads world dev) ?rep')"
    by (simp add: s collect_append)
  with collect_other [OF a, of tr loads world rep]
    collect_other [OF b, of tr loads world "store_result (run_device tr loads world dev) ?rep'"]
  show ?thesis
    by (intro exI [of _ ?rep']) simp
qed





section \<open>The pattern and the free-text rows: properties\<close>

lemma backtrack_caps:
  assumes "\<And>t r. k t = Some r \<Longrightarrow> length (fst r) = n"
    and "backtrack k cap mn m s = Some r"
  shows "length (fst r) = (if cap then Suc n else n)"
  using assms(2)
proof (induction m)
  case 0
  then show ?case
    using assms(1) [of s] by (auto split: if_splits option.splits)
next
  case (Suc m)
  then show ?case
    using assms(1) [of "drop (Suc m) s"]
    by (auto split: if_splits option.splits)
qed

lemma match_items_caps:
  "match_items its s = Some r \<Longrightarrow>
     length (fst r) = length (filter (\<lambda>it. case it of Lit l \<Rightarrow> False | Rep cls mn cap \<Rightarrow> cap) its)"
proof (induction its arbitrary: s r)
  case Nil
  then show ?case by auto
next
  case (Cons it its)
  show ?case
  proof (cases it)
    case (Lit l)
    with Cons.prems have "match_items its (drop (length l) s) = Some r"
      by (auto split: if_splits)
    from Cons.IH [OF this] Lit show ?thesis by simp
  next
    case (Rep cls mn cap)
    with Cons.prems
    have b: "backtrack (match_items its) cap mn (length (takeWhile cls s)) s = Some r"
      by simp
    have "length (fst r) = (if cap then Suc (length (filter (\<lambda>it. case it of Lit l \<Rightarrow> False | Rep cls mn cap \<Rightarrow> cap) its)) else length (filter (\<lambda>it. case it of Lit l \<Rightarrow> False | Rep cls mn cap \<Rightarrow> cap) its))"
      by (rule backtrack_caps [OF _ b]) (rule Cons.IH)
    with Rep show ?thesis by simp
  qed
qed

lemma match_pattern_caps:
  "match_items pattern s = Some (caps, rest) \<Longrightarrow> length caps = 5"
  by (drule match_items_caps) (simp add: pattern_def)

lemma finditer_groups:
  "g \<in> set (finditer s) \<Longrightarrow> length g = 5"
proof (induction s rule: finditer.induct)
  case (1 s)
  show ?case
  proof (cases "match_items pattern s")
    case None
    show ?thesis
    proof (cases s)
      case Nil
      with None "1.prems" show ?thesis
        by (simp add: finditer.simps [of "[]"])
    next
      case (Cons c cs)
      with None have "finditer s = finditer cs"
        by (simp add: finditer.simps [of "c # cs"])
      with "1.prems" "1.IH"(1) [OF None Cons] show ?thesis
        by simp
    qed
  next
    case (Some r)
    obtain caps rest where r: "r = (caps, rest)" by (cases r)
    from Some r have m: "match_items pattern s = Some (caps, rest)"
      by simp
    then have "finditer s = caps # finditer rest"
      by (simp add: finditer.simps [of s])
    with "1.prems" have "g = caps \<or> g \<in> set (finditer rest)"
      by simp
    then show ?thesis
    proof
      assume "g = caps"
      with match_pattern_caps [OF m] show ?thesis by simp
    next
      assume "g \<in> set (finditer rest)"
      then show ?thesis
        by (rule "1.IH"(2) [OF m refl])
    qed
  qed
qed

lemma five: "length g = 5 \<Longrightarrow> \<exists>a b c d e. g = [a, b, c, d, e]"
  by (auto simp: length_Suc_conv eval_nat_numeral)

lemma key_eq_KStr [simp]: "key_eq (KStr a) (KStr b) = (a = b)"
  by (simp add: key_eq_def)

lemma dict_set_str_keys:
  assumes "\<forall>k \<in> set (map fst d). \<exists>s. k = KStr s"
  shows "set (map fst (dict_set (KStr n) v d)) = insert (KStr n) (set (map fst d))"
  using assms
proof (induction d)
  case Nil
  then show ?case by simp
next
  case (Cons kv d)
  obtain k' v' where kv: "kv = (k', v')" by (cases kv)
  with Cons.prems obtain s where s: "k' = KStr s" by auto
  from Cons.prems have "\<forall>k \<in> set (map fst d). \<exists>s. k = KStr s" by simp
  from Cons.IH [OF this] kv s show ?case
    by (cases "s = n") auto
qed

lemma text_rows_keys:
  assumes "\<forall>g \<in> set ms. length g = 5"
    and "\<forall>k \<in> set (map fst acc). \<exists>s. k = KStr s"
  shows "set (map fst (text_rows ms acc)) =
           set (map fst acc) \<union>
           {KStr name | name. \<exists>descr pid vid sn.
              [name, descr, pid, vid, sn] \<in> set ms \<and> keep_name name}"
  using assms
proof (induction ms arbitrary: acc)
  case Nil
  then show ?case by simp
next
  case (Cons g ms)
  from Cons.prems(1) obtain name descr pid vid sn where g: "g = [name, descr, pid, vid, sn]"
    using five [of g] by auto
  let ?r = "\<lparr>Description = PStr descr, PID = PStr pid, VID = PStr vid, SN = PStr sn,
             Operational_State = ''Unknown''\<rparr>"
  let ?acc' = "if keep_name name then dict_set (KStr name) ?r acc else acc"
  let ?M = "\<lambda>ms. {KStr name | name. \<exists>descr pid vid sn.
              [name, descr, pid, vid, sn] \<in> set ms \<and> keep_name name}"
  have k: "set (map fst ?acc') = set (map fst acc) \<union> (if keep_name name then {KStr name} else {})"
    using dict_set_str_keys [OF Cons.prems(2), of name ?r] by simp
  then have s: "\<forall>k \<in> set (map fst ?acc'). \<exists>s. k = KStr s"
    using Cons.prems(2) by (auto split: if_splits)
  from Cons.prems(1) have "\<forall>g \<in> set ms. length g = 5"
    by simp
  from Cons.IH [OF this s] have t: "set (map fst (text_rows (g # ms) acc)) =
      set (map fst ?acc') \<union> ?M ms"
    by (simp add: g)
  have m: "?M (g # ms) = (if keep_name name then {KStr name} else {}) \<union> ?M ms"
    by (auto simp: g) blast+
  show ?case
    unfolding t k m by blast
qed

lemma text_rows_value:
  assumes "dict_get (text_rows ms acc) (KStr name) = Some r"
  shows "dict_get acc (KStr name) = Some r
       \<or> (\<exists>descr pid vid sn. [name, descr, pid, vid, sn] \<in> set ms \<and> keep_name name
            \<and> r = \<lparr>Description = PStr descr, PID = PStr pid, VID = PStr vid, SN = PStr sn,
                    Operational_State = ''Unknown''\<rparr>)"
  using assms
proof (induction ms arbitrary: acc)
  case Nil
  then show ?case by simp
next
  case (Cons g ms)
  show ?case
  proof (cases "\<exists>n descr pid vid sn. g = [n, descr, pid, vid, sn] \<and> keep_name n")
    case False
    then have "text_rows (g # ms) acc = text_rows ms acc"
      by (auto split: list.splits)
    with Cons.prems Cons.IH [of acc] show ?thesis
      by auto
  next
    case True
    then obtain n descr pid vid sn where g: "g = [n, descr, pid, vid, sn]" and k: "keep_name n"
      by blast
    let ?r = "\<lparr>Description = PStr descr, PID = PStr pid, VID = PStr vid, SN = PStr sn,
               Operational_State = ''Unknown''\<rparr>"
    from g k Cons.prems have "dict_get (text_rows ms (dict_set (KStr n) ?r acc)) (KStr name) = Some r"
      by simp
    from Cons.IH [OF this]
    show ?thesis
    proof
      assume "dict_get (dict_set (KStr n) ?r acc) (KStr name) = Some r"
      then show ?thesis
        using g k by (auto simp: dict_get_dict_set split: if_splits)
    next
      assume "\<exists>descr pid vid sn. [name, descr, pid, vid, sn] \<in> set ms \<and> keep_name name
            \<and> r = \<lparr>Description = PStr descr, PID = PStr pid, VID = PStr vid, SN = PStr sn,
                    Operational_State = ''Unknown''\<rparr>"
      then show ?thesis by auto
    qed
  qed
qed

section \<open>The status queries of a device: properties\<close>

lemma nxos_scan_range: "nxos_scan lines \<in> {''DOWN'', ''ADMIN_DOWN'', ''UP''}"
  by (induction lines) (auto simp: Let_def nxos_classify_def)

lemma xr_scan_range:
  "xr_scan lines \<in> {(''DOWN'', ''DOWN''), (''ADMIN_DOWN'', ''DOWN''), (''UP'', ''UP''), (''UP'', ''DOWN'')}"
  by (induction lines) (auto simp: Let_def xr_classify_def)

lemma nxos_status_not_error: "nxos_status output \<noteq> ''ERROR''"
  using nxos_scan_range [of "split_nl output"] by (auto simp: nxos_status_def)

lemma xr_status_not_error: "xr_status output \<noteq> ''ERROR''"
  using xr_scan_range [of "split_nl output"] by (auto simp: xr_status_def)

lemma state_of_reply_error: "(state_of_reply platform r = ''ERROR'') = isl r"
  by (cases r) (simp_all add: state_of_reply_def nxos_status_not_error xr_status_not_error)

lemma inventory_and_status_parsed:
  assumes "supported platform"
    and "send_command tr c command st0 = (Inr output, st1)"
    and "parse_inventory_output loads output platform = Inr optics_info"
  shows "inventory_and_status tr loads c platform command st0 =
           (Inr (merge_status optics_info
                   (zip (dict_keys optics_info)
                      (map (state_of_reply platform)
                         (status_replies tr c (dict_keys optics_info) st1)))),
            snd (status_loop tr c platform (dict_keys optics_info) [] st1))"
proof (cases "optics_info = []")
  case True
  with assms(2,3) show ?thesis
    by (simp add: inventory_and_status_def merge_status_def dict_keys_def)
next
  case False
  have d: "distinct (map key_norm (dict_keys optics_info))"
    using parse_distinct [OF assms(3)] by (simp add: keys_distinct_def dict_keys_def comp_def)
  obtain ist st2 where sl: "status_loop tr c platform (dict_keys optics_info) [] st1 = (ist, st2)"
    by (cases "status_loop tr c platform (dict_keys optics_info) [] st1")
  have "fst (status_loop tr c platform (dict_keys optics_info) [] st1) =
          [] @ zip (dict_keys optics_info)
                 (map (state_of_reply platform) (status_replies tr c (dict_keys optics_info) st1))"
    by (rule status_loop_result [OF assms(1) d]) simp
  with sl have "ist = zip (dict_keys optics_info)
                 (map (state_of_reply platform) (status_replies tr c (dict_keys optics_info) st1))"
    by simp
  with False assms(2,3) sl show ?thesis
    by (simp add: inventory_and_status_def get_interface_status_def)
qed

section \<open>The sample devices, evaluated\<close>


lemma parse_json_rows:
  "parse_inventory_output sample_loads json_rows ''cisco_nxos'' =
     Inr [(KStr ''Ethernet1/1'',
           \<lparr>Description = PStr ''10G SFP'', PID = PStr ''SFP-10G-SR'', VID = PStr ''V03'',
            SN = PStr ''S1'', Operational_State = ''Unknown''\<rparr>),
          (KStr ''Ethernet1/4'',
           \<lparr>Description = PStr ''1G SFP'', PID = PStr ''N/A'', VID = PStr ''N/A'',
            SN = PStr ''N/A'', Operational_State = ''Unknown''\<rparr>)]"
  by (simp add: parse_inventory_output_def sample_loads_def json_rows_def json_no_pid_def
      rows_sample_def nxos_inventory_def nxos_row_def key_eq_def)



section \<open>The NX-OS rows: properties\<close>





section \<open>The claims\<close>



text \<open>
  C2, as the spec states it, fails: only \<open>json.JSONDecodeError\<close> is caught (source line
  35). A text that is JSON but not an object, here the empty array, is decoded, the first
  \<open>.get\<close> raises \<open>AttributeError\<close>, the exception leaves the parser, and the device
  ends in the failure mapping.
\<close>

theorem json_array_raises_past_parser:
  "parse_inventory_output sample_loads ''[]'' ''cisco_nxos''
     = Inl (AttributeError (quoted ''list'' @ '' object has no attribute '' @ quoted ''get''))
   \<and> main_batch scripted sample_loads
        (\<lambda>name. \<lparr>on_connect = None, replies = [Inr ''[]''], on_disconnect = None\<rparr>)
        [(''n1'', device ''cisco_nxos'')]
     = \<lparr>optics_data = Map.empty,
        failed_connections =
          [''n1'' \<mapsto> quoted ''list'' @ '' object has no attribute '' @ quoted ''get'']\<rparr>"
  by (simp add: main_batch_def run_device_def process_device_def process_device_try_def
      get_device_connection_def send_command_def scripted_def device_def
      inventory_command_def inventory_and_status_def parse_inventory_output_def
      sample_loads_def nxos_inventory_def store_result_def quoted_def)

text \<open>
  C2, amended. For every inventory text of the JSON-shaped platform that the decoder
  rejects with a \<open>JSONDecodeError\<close>, \<open>parse_inventory_output\<close> returns the empty record set
  and raises nothing; the inventory and status work of the device then ends with the
  empty record set, in the state the inventory command left, without a status query; and
  when the session was opened and the disconnect returns, the device's outcome is a
  success with the empty record set.
\<close>

theorem json_decode_error_gives_empty_success:
  assumes "loads output = Inl (JSONDecodeError m)"
  shows "parse_inventory_output loads output ''cisco_nxos'' = Inr []
       \<and> (send_command tr c command st0 = (Inr output, st1) \<longrightarrow>
            inventory_and_status tr loads c ''cisco_nxos'' command st0 = (Inr [], st1))
       \<and> (get_device_connection tr device_info st = (Inr c, st0)
            \<and> device_type device_info = Some ''cisco_nxos''
            \<and> send_command tr c ''show inventory all | json'' st0 = (Inr output, st1)
            \<and> disconnect tr c st1 = (Inr u, st2) \<longrightarrow>
            process_device tr loads device_name device_info st = ((device_name, [], None), st2)
            \<and> store_result (fst (process_device tr loads device_name device_info st))
                 \<lparr>optics_data = Map.empty, failed_connections = Map.empty\<rparr>
               = \<lparr>optics_data = [device_name \<mapsto> []], failed_connections = Map.empty\<rparr>)"
proof (intro conjI impI)
  show p: "parse_inventory_output loads output ''cisco_nxos'' = Inr []"
    using assms by (simp add: parse_inventory_output_def)
  show "inventory_and_status tr loads c ''cisco_nxos'' command st0 = (Inr [], st1)"
    if "send_command tr c command st0 = (Inr output, st1)" for command
    using that p by (simp add: inventory_and_status_def)
  then have w: "inventory_and_status tr loads c ''cisco_nxos'' ''show inventory all | json'' st0
        = (Inr [], st1)"
    if "send_command tr c ''show inventory all | json'' st0 = (Inr output, st1)"
    using that by blast
  have c: "inventory_command ''cisco_nxos'' = Some ''show inventory all | json''"
    by (simp add: inventory_command_def)
  assume h: "get_device_connection tr device_info st = (Inr c, st0)
            \<and> device_type device_info = Some ''cisco_nxos''
            \<and> send_command tr c ''show inventory all | json'' st0 = (Inr output, st1)
            \<and> disconnect tr c st1 = (Inr u, st2)"
  then have g: "get_device_connection tr device_info st = (Inr c, st0)"
    and t: "device_type device_info = Some ''cisco_nxos''"
    and s: "send_command tr c ''show inventory all | json'' st0 = (Inr output, st1)"
    and dc: "disconnect tr c st1 = (Inr u, st2)"
    by simp_all
  from process_device_disconnect [OF g t c w [OF s] dc]
  show r: "process_device tr loads device_name device_info st = ((device_name, [], None), st2)"
    by simp
  then show "store_result (fst (process_device tr loads device_name device_info st))
                 \<lparr>optics_data = Map.empty, failed_connections = Map.empty\<rparr>
               = \<lparr>optics_data = [device_name \<mapsto> []], failed_connections = Map.empty\<rparr>"
    by (simp add: store_result_def)
qed

theorem json_decode_error_gives_empty_success_witness:
  "sample_loads ''% Invalid command at marker.''
     = Inl (JSONDecodeError ''Expecting value: line 1 column 1 (char 0)'')
   \<and> parse_inventory_output sample_loads ''% Invalid command at marker.'' ''cisco_nxos'' = Inr []
   \<and> get_device_connection scripted (device ''cisco_nxos'')
         (\<lparr>on_connect = None, replies = [Inr ''% Invalid command at marker.''],
           on_disconnect = None\<rparr>, [])
       = (Inr (), (\<lparr>on_connect = None, replies = [Inr ''% Invalid command at marker.''],
                    on_disconnect = None\<rparr>, [Connect]))
   \<and> device_type (device ''cisco_nxos'') = Some ''cisco_nxos''
   \<and> send_command scripted () ''show inventory all | json''
         (\<lparr>on_connect = None, replies = [Inr ''% Invalid command at marker.''],
           on_disconnect = None\<rparr>, [Connect])
       = (Inr ''% Invalid command at marker.'',
          (\<lparr>on_connect = None, replies = [], on_disconnect = None\<rparr>,
           [Connect, Send ''show inventory all | json'']))
   \<and> disconnect scripted ()
         (\<lparr>on_connect = None, replies = [], on_disconnect = None\<rparr>,
          [Connect, Send ''show inventory all | json''])
       = (Inr (), (\<lparr>on_connect = None, replies = [], on_disconnect = None\<rparr>,
                   [Connect, Send ''show inventory all | json'', Disconnect]))
   \<and> process_device scripted sample_loads ''n1'' (device ''cisco_nxos'')
         (\<lparr>on_connect = None, replies = [Inr ''% Invalid command at marker.''],
           on_disconnect = None\<rparr>, [])
       = ((''n1'', [], None),
          (\<lparr>on_connect = None, replies = [], on_disconnect = None\<rparr>,
           [Connect, Send ''show inventory all | json'', Disconnect]))"
proof -
  let ?out = "''% Invalid command at marker.''"
  let ?w0 = "\<lparr>on_connect = None, replies = [Inr ?out], on_disconnect = None\<rparr>"
  let ?w1 = "\<lparr>on_connect = None, replies = [], on_disconnect = None\<rparr>"
  have l: "sample_loads ?out = Inl (JSONDecodeError ''Expecting value: line 1 column 1 (char 0)'')"
    by (simp add: sample_loads_def json_no_pid_def json_rows_def)
  have g: "get_device_connection scripted (device ''cisco_nxos'') (?w0, [])
       = (Inr (), (?w0, [Connect]))"
    by (simp add: get_device_connection_def scripted_def)
  have t: "device_type (device ''cisco_nxos'') = Some ''cisco_nxos''"
    by (simp add: device_def)
  have s: "send_command scripted () ''show inventory all | json'' (?w0, [Connect])
       = (Inr ?out, (?w1, [Connect, Send ''show inventory all | json'']))"
    by (simp add: send_command_def scripted_def)
  have d: "disconnect scripted () (?w1, [Connect, Send ''show inventory all | json''])
       = (Inr (), (?w1, [Connect, Send ''show inventory all | json'', Disconnect]))"
    by (simp add: disconnect_def scripted_def)
  note th = json_decode_error_gives_empty_success [of sample_loads ?out
      "''Expecting value: line 1 column 1 (char 0)''", OF l]
  from th [THEN conjunct1]
  have p: "parse_inventory_output sample_loads ?out ''cisco_nxos'' = Inr []" .
  from th [of scripted "()" _ "(?w0, [Connect])"
      "(?w1, [Connect, Send ''show inventory all | json''])" "device ''cisco_nxos''"
      "(?w0, [])" "()" "(?w1, [Connect, Send ''show inventory all | json'', Disconnect])" "''n1''"]
    g t s d
  have r: "process_device scripted sample_loads ''n1'' (device ''cisco_nxos'') (?w0, [])
       = ((''n1'', [], None), (?w1, [Connect, Send ''show inventory all | json'', Disconnect]))"
    by blast
  from l p g t s d r show ?thesis
    by blast
qed




text \<open>
  C4. On a free-text platform (every platform tag but \<open>cisco_nxos\<close>) the parser never
  raises. Every match of the pattern has the five groups name, description, PID, VID, SN;
  the names of the result are exactly the names of the matches that contain \<open>port\<close> in
  any letter case, or \<open>GigE\<close>, or \<open>TenGigE\<close>; every record holds the groups of a match of
  its name. A text whose matches are one block named \<open>chassis\<close> and one named
  \<open>TenGigE0/0/0/1\<close> yields the second alone, and a text without a match yields the empty
  result.
\<close>

theorem free_text_keeps_port_names:
  assumes "platform \<noteq> ''cisco_nxos''"
  shows "\<exists>optics_info. parse_inventory_output loads output platform = Inr optics_info
       \<and> (\<forall>g \<in> set (finditer output). \<exists>name descr pid vid sn. g = [name, descr, pid, vid, sn])
       \<and> set (dict_keys optics_info) =
           {KStr name | name. \<exists>descr pid vid sn.
              [name, descr, pid, vid, sn] \<in> set (finditer output)
              \<and> (py_in ''port'' (lower name) \<or> py_in ''GigE'' name \<or> py_in ''TenGigE'' name)}
       \<and> (\<forall>name r. dict_get optics_info (KStr name) = Some r \<longrightarrow>
            (\<exists>descr pid vid sn. [name, descr, pid, vid, sn] \<in> set (finditer output)
               \<and> r = \<lparr>Description = PStr descr, PID = PStr pid, VID = PStr vid, SN = PStr sn,
                       Operational_State = ''Unknown''\<rparr>))
       \<and> (\<forall>d1 p1 v1 s1 d2 p2 v2 s2.
            finditer output = [[''chassis'', d1, p1, v1, s1], [''TenGigE0/0/0/1'', d2, p2, v2, s2]]
            \<or> finditer output = [[''TenGigE0/0/0/1'', d2, p2, v2, s2], [''chassis'', d1, p1, v1, s1]]
            \<longrightarrow> optics_info =
                  [(KStr ''TenGigE0/0/0/1'',
                    \<lparr>Description = PStr d2, PID = PStr p2, VID = PStr v2, SN = PStr s2,
                     Operational_State = ''Unknown''\<rparr>)])
       \<and> (finditer output = [] \<longrightarrow> optics_info = [])"
proof -
  let ?res = "text_rows (finditer output) []"
  have p: "parse_inventory_output loads output platform = Inr ?res"
    using assms by (simp add: parse_inventory_output_def)
  have g5: "\<forall>g \<in> set (finditer output). length g = 5"
    by (simp add: finditer_groups)
  then have g: "\<forall>g \<in> set (finditer output). \<exists>name descr pid vid sn. g = [name, descr, pid, vid, sn]"
    using five by blast
  have k: "set (dict_keys ?res) =
           {KStr name | name. \<exists>descr pid vid sn.
              [name, descr, pid, vid, sn] \<in> set (finditer output)
              \<and> (py_in ''port'' (lower name) \<or> py_in ''GigE'' name \<or> py_in ''TenGigE'' name)}"
    using text_rows_keys [OF g5, of "[]"] by (simp add: dict_keys_def keep_name_def)
  have v: "\<forall>name r. dict_get ?res (KStr name) = Some r \<longrightarrow>
            (\<exists>descr pid vid sn. [name, descr, pid, vid, sn] \<in> set (finditer output)
               \<and> r = \<lparr>Description = PStr descr, PID = PStr pid, VID = PStr vid, SN = PStr sn,
                       Operational_State = ''Unknown''\<rparr>)"
    using text_rows_value [of "finditer output" "[]"] by fastforce
  have c: "\<forall>d1 p1 v1 s1 d2 p2 v2 s2.
            finditer output = [[''chassis'', d1, p1, v1, s1], [''TenGigE0/0/0/1'', d2, p2, v2, s2]]
            \<or> finditer output = [[''TenGigE0/0/0/1'', d2, p2, v2, s2], [''chassis'', d1, p1, v1, s1]]
            \<longrightarrow> ?res =
                  [(KStr ''TenGigE0/0/0/1'',
                    \<lparr>Description = PStr d2, PID = PStr p2, VID = PStr v2, SN = PStr s2,
                     Operational_State = ''Unknown''\<rparr>)]"
    by (auto simp: keep_name_def lower_def lower_char_def)
  have e: "finditer output = [] \<longrightarrow> ?res = []"
    by simp
  from p g k v c e show ?thesis
    by blast
qed


theorem free_text_keeps_port_names_witness:
  "''cisco_xr'' \<noteq> ''cisco_nxos''
   \<and> finditer xr_inventory =
       [[''chassis'', ''ASR 9006 Chassis'', ''ASR-9006-AC'', ''V01'', ''FOX1234ABCD''],
        [''TenGigE0/0/0/1'', ''10GBASE-LR SFP+'', ''SFP-10G-LR'', ''V02'', ''ABC123'']]
   \<and> parse_inventory_output sample_loads xr_inventory ''cisco_xr'' =
       Inr [(KStr ''TenGigE0/0/0/1'',
             \<lparr>Description = PStr ''10GBASE-LR SFP+'', PID = PStr ''SFP-10G-LR'',
              VID = PStr ''V02'', SN = PStr ''ABC123'', Operational_State = ''Unknown''\<rparr>)]
   \<and> finditer ''% Invalid input detected at marker.'' = []
   \<and> parse_inventory_output sample_loads ''% Invalid input detected at marker.'' ''cisco_xr''
       = Inr []"
proof -
  have n: "''cisco_xr'' \<noteq> ''cisco_nxos''"
    by simp
  have f: "finditer ''% Invalid input detected at marker.'' = []"
    by code_simp
  from free_text_keeps_port_names [OF n, of sample_loads xr_inventory] finditer_xr_inventory
  have a: "parse_inventory_output sample_loads xr_inventory ''cisco_xr'' =
       Inr [(KStr ''TenGigE0/0/0/1'',
             \<lparr>Description = PStr ''10GBASE-LR SFP+'', PID = PStr ''SFP-10G-LR'',
              VID = PStr ''V02'', SN = PStr ''ABC123'', Operational_State = ''Unknown''\<rparr>)]"
    by blast
  from free_text_keeps_port_names [OF n, of sample_loads "''% Invalid input detected at marker.''"] f
  have b: "parse_inventory_output sample_loads ''% Invalid input detected at marker.'' ''cisco_xr''
       = Inr []"
    by blast
  from n finditer_xr_inventory a f b show ?thesis
    by blast
qed

text \<open>
  C5. On IOS-XR and IOS-XE the test for \<open>administratively down\<close> stands inside the branch
  for lines that contain \<open>up\<close> (source lines 104 to 107). The status line of an
  administratively disabled interface contains no \<open>up\<close>, so the loop takes the other
  branch: the combined state is \<open>DOWN/DOWN\<close>, not \<open>ADMIN_DOWN/DOWN\<close>. This evaluates the
  code at such a line, which contains \<open>line protocol is administratively down\<close>.
\<close>

theorem xr_status_admin_down_is_down_down:
  "py_in ''line protocol is administratively down''
     ''TenGigE0/0/0/1 is administratively down, line protocol is administratively down''
   \<and> xr_status
        ''TenGigE0/0/0/1 is administratively down, line protocol is administratively down''
      = ''DOWN/DOWN''
   \<and> xr_status ''line protocol is administratively down'' = ''DOWN/DOWN''"
  by (simp add: xr_status_def xr_classify_def lower_def lower_char_def)

text \<open>
  C6, as the spec states it, fails: the scan does not look for the interface identifier.
  The first line that contains \<open>is\<close> and one of \<open>up\<close>, \<open>down\<close> ends the scan, whatever
  interface it names. Here the status text contains \<open>Gi1 is up (connected)\<close>, on its
  second line, and the state is \<open>DOWN\<close>, decided by the first line.
\<close>

theorem nxos_status_ignores_identifier:
  "py_in ''Gi1 is up (connected)'' ''Gi2 is down (notconnect)\<newline>Gi1 is up (connected)''
   \<and> nxos_status ''Gi2 is down (notconnect)\<newline>Gi1 is up (connected)'' = ''DOWN''"
  by (simp add: nxos_status_def nxos_guard_def nxos_classify_def lower_def lower_char_def)

text \<open>
  C6, amended. The NX-OS scan takes the first line whose lower-case form contains \<open>is\<close>
  and one of \<open>up\<close>, \<open>down\<close> (\<open>nxos_guard\<close>; the interface identifier is not looked for),
  and stops there. On that line the rules apply in this order: \<open>administratively down\<close>
  gives \<open>ADMIN_DOWN\<close>; \<open>is up\<close> with \<open>connected\<close> gives \<open>UP\<close>; \<open>is up\<close> with
  \<open>notconnect\<close> gives \<open>DOWN\<close>; \<open>is up\<close> alone gives \<open>UP\<close>; everything else, \<open>is down\<close>
  included, gives \<open>DOWN\<close>. With no such line the state is \<open>DOWN\<close>. A status text that is
  the one line \<open>Gi1 is up (connected)\<close> gives \<open>UP\<close>.
\<close>

theorem nxos_status_first_keyword_line:
  "(\<forall>pre l post.
      split_nl output = pre @ l # post \<and> (\<forall>x \<in> set pre. \<not> nxos_guard (lower x))
        \<and> nxos_guard (lower l) \<longrightarrow>
      nxos_status output =
        (if py_in ''administratively down'' (lower l) then ''ADMIN_DOWN''
         else if py_in ''is up'' (lower l) \<and> py_in ''connected'' (lower l) then ''UP''
         else if py_in ''is up'' (lower l) \<and> py_in ''notconnect'' (lower l) then ''DOWN''
         else if py_in ''is up'' (lower l) then ''UP''
         else ''DOWN''))
   \<and> ((\<forall>x \<in> set (split_nl output). \<not> nxos_guard (lower x)) \<longrightarrow> nxos_status output = ''DOWN'')
   \<and> nxos_status ''Gi1 is up (connected)'' = ''UP''"
proof (intro conjI allI impI)
  fix pre l post
  assume h: "split_nl output = pre @ l # post \<and> (\<forall>x \<in> set pre. \<not> nxos_guard (lower x))
    \<and> nxos_guard (lower l)"
  then have "nxos_status output = nxos_classify (lower l)"
    by (simp add: nxos_status_def nxos_scan_first)
  then show "nxos_status output =
        (if py_in ''administratively down'' (lower l) then ''ADMIN_DOWN''
         else if py_in ''is up'' (lower l) \<and> py_in ''connected'' (lower l) then ''UP''
         else if py_in ''is up'' (lower l) \<and> py_in ''notconnect'' (lower l) then ''DOWN''
         else if py_in ''is up'' (lower l) then ''UP''
         else ''DOWN'')"
    by (simp add: nxos_classify_def)
next
  assume "\<forall>x \<in> set (split_nl output). \<not> nxos_guard (lower x)"
  then show "nxos_status output = ''DOWN''"
    by (simp add: nxos_status_def nxos_scan_none)
next
  show "nxos_status ''Gi1 is up (connected)'' = ''UP''"
    by (simp add: nxos_status_def nxos_guard_def nxos_classify_def lower_def lower_char_def)
qed

theorem nxos_status_first_keyword_line_witness:
  "split_nl ''show interface Gi1\<newline>Gi1 is up (notconnect)\<newline>admin state is up''
     = [''show interface Gi1''] @ ''Gi1 is up (notconnect)'' # [''admin state is up'']
   \<and> \<not> nxos_guard (lower ''show interface Gi1'')
   \<and> nxos_guard (lower ''Gi1 is up (notconnect)'')
   \<and> nxos_status ''show interface Gi1\<newline>Gi1 is up (notconnect)\<newline>admin state is up'' = ''DOWN''
   \<and> \<not> nxos_guard (lower ''% Invalid command'')
   \<and> nxos_status ''% Invalid command'' = ''DOWN''"
proof -
  let ?out = "''show interface Gi1\<newline>Gi1 is up (notconnect)\<newline>admin state is up''"
  let ?l = "''Gi1 is up (notconnect)''"
  have s: "split_nl ?out = [''show interface Gi1''] @ ?l # [''admin state is up'']"
    by simp
  have g1: "\<forall>x \<in> set [''show interface Gi1'']. \<not> nxos_guard (lower x)"
    by (simp add: nxos_guard_def lower_def lower_char_def)
  have g2: "nxos_guard (lower ?l)"
    by (simp add: nxos_guard_def lower_def lower_char_def)
  have g3: "\<forall>x \<in> set (split_nl ''% Invalid command''). \<not> nxos_guard (lower x)"
    by (simp add: nxos_guard_def lower_def lower_char_def)
  from nxos_status_first_keyword_line [of ?out] s g1 g2
  have "nxos_status ?out =
        (if py_in ''administratively down'' (lower ?l) then ''ADMIN_DOWN''
         else if py_in ''is up'' (lower ?l) \<and> py_in ''connected'' (lower ?l) then ''UP''
         else if py_in ''is up'' (lower ?l) \<and> py_in ''notconnect'' (lower ?l) then ''DOWN''
         else if py_in ''is up'' (lower ?l) then ''UP''
         else ''DOWN'')"
    by blast
  then have r1: "nxos_status ?out = ''DOWN''"
    by (simp add: lower_def lower_char_def)
  from nxos_status_first_keyword_line [of "''% Invalid command''"] g3
  have r2: "nxos_status ''% Invalid command'' = ''DOWN''"
    by blast
  from s g1 g2 g3 r1 r2 show ?thesis
    by simp
qed

text \<open>
  C7, as the spec states it, fails in its last part: the status error itself never fails
  the device, but the record set still depends on the disconnect that follows. Here the
  status query of router \<open>r1\<close> raises, its record gets the state \<open>ERROR\<close>, then the
  disconnect raises too (the session is gone), and the batch stores \<open>r1\<close> in the failure
  mapping without any record.
\<close>

theorem status_error_then_disconnect_error:
  "inventory_and_status scripted sample_loads () ''cisco_xr'' ''show inventory''
      (\<lparr>on_connect = None,
        replies = [Inr xr_inventory, Inl (OtherError ''Socket is closed'')],
        on_disconnect = Some (OtherError ''Socket is closed'')\<rparr>, [Connect])
     = (Inr [(KStr ''TenGigE0/0/0/1'',
              \<lparr>Description = PStr ''10GBASE-LR SFP+'', PID = PStr ''SFP-10G-LR'',
               VID = PStr ''V02'', SN = PStr ''ABC123'', Operational_State = ''ERROR''\<rparr>)],
        (\<lparr>on_connect = None, replies = [],
          on_disconnect = Some (OtherError ''Socket is closed'')\<rparr>,
         [Connect, Send ''show inventory'', Send ''show interface TenGigE0/0/0/1'']))
   \<and> main_batch scripted sample_loads
        (\<lambda>name. \<lparr>on_connect = None,
           replies = [Inr xr_inventory, Inl (OtherError ''Socket is closed'')],
           on_disconnect = Some (OtherError ''Socket is closed'')\<rparr>)
        [(''r1'', device ''cisco_xr'')]
     = \<lparr>optics_data = Map.empty, failed_connections = [''r1'' \<mapsto> ''Socket is closed'']\<rparr>"
  by (simp add: main_batch_def run_device_def process_device_def process_device_try_def
      get_device_connection_def send_command_def disconnect_def scripted_def device_def
      inventory_command_def inventory_and_status_def parse_xr_inventory
      get_interface_status_def dict_keys_def status_command_def merge_status_def
      store_result_def)

text \<open>
  C7, amended. For every device on a supported platform whose inventory command returns
  and parses: one status command is sent for every port of the inventory, in order,
  whatever the transport answers to the others; the merged record set has the records of
  the inventory, each with the state of its own reply; a record has the state \<open>ERROR\<close>
  exactly when the transport raised on its status command; and when the disconnect that
  follows returns, \<open>process_device\<close> returns the full merged record set with no error.
\<close>

theorem status_error_marks_only_its_interface:
  assumes "supported platform"
    and "send_command tr c command st0 = (Inr output, st1)"
    and "parse_inventory_output loads output platform = Inr optics_info"
  shows "\<exists>merged st2.
      inventory_and_status tr loads c platform command st0 = (Inr merged, st2)
    \<and> length merged = length optics_info
    \<and> (\<forall>i < length optics_info.
         merged ! i =
           (fst (optics_info ! i),
            (snd (optics_info ! i))\<lparr>Operational_State :=
               state_of_reply platform (status_replies tr c (dict_keys optics_info) st1 ! i)\<rparr>)
         \<and> ((Operational_State (snd (merged ! i)) = ''ERROR'')
              = isl (status_replies tr c (dict_keys optics_info) st1 ! i)))
    \<and> snd st2 = snd st1 @ map (\<lambda>k. Send (status_command k)) (dict_keys optics_info)
    \<and> (\<forall>device_name device_info st u st3.
          get_device_connection tr device_info st = (Inr c, st0)
          \<and> device_type device_info = Some platform
          \<and> inventory_command platform = Some command
          \<and> disconnect tr c st2 = (Inr u, st3) \<longrightarrow>
          process_device tr loads device_name device_info st = ((device_name, merged, None), st3))"
proof -
  let ?rs = "status_replies tr c (dict_keys optics_info) st1"
  let ?vs = "map (state_of_reply platform) ?rs"
  let ?merged = "merge_status optics_info (zip (dict_keys optics_info) ?vs)"
  let ?st2 = "snd (status_loop tr c platform (dict_keys optics_info) [] st1)"
  have w: "inventory_and_status tr loads c platform command st0 = (Inr ?merged, ?st2)"
    by (rule inventory_and_status_parsed [OF assms])
  have len: "length ?merged = length optics_info"
    by (simp add: merge_status_def)
  have kd: "keys_distinct optics_info"
    by (rule parse_distinct [OF assms(3)])
  have lv: "length ?vs = length optics_info"
    by (simp add: dict_keys_def)
  have nth: "\<forall>i < length optics_info.
         ?merged ! i =
           (fst (optics_info ! i),
            (snd (optics_info ! i))\<lparr>Operational_State := state_of_reply platform (?rs ! i)\<rparr>)
         \<and> ((Operational_State (snd (?merged ! i)) = ''ERROR'') = isl (?rs ! i))"
  proof (intro allI impI)
    fix i assume i: "i < length optics_info"
    then have "?vs ! i = state_of_reply platform (?rs ! i)"
      by (simp add: dict_keys_def)
    with merge_status_zip [OF kd lv i]
    have m: "?merged ! i = (fst (optics_info ! i),
            (snd (optics_info ! i))\<lparr>Operational_State := state_of_reply platform (?rs ! i)\<rparr>)"
      by simp
    then show "?merged ! i =
           (fst (optics_info ! i),
            (snd (optics_info ! i))\<lparr>Operational_State := state_of_reply platform (?rs ! i)\<rparr>)
         \<and> ((Operational_State (snd (?merged ! i)) = ''ERROR'') = isl (?rs ! i))"
      by (simp add: state_of_reply_error)
  qed
  have log: "snd ?st2 = snd st1 @ map (\<lambda>k. Send (status_command k)) (dict_keys optics_info)"
    by (rule status_loop_log [OF assms(1)])
  have dev: "\<forall>device_name device_info st u st3.
          get_device_connection tr device_info st = (Inr c, st0)
          \<and> device_type device_info = Some platform
          \<and> inventory_command platform = Some command
          \<and> disconnect tr c ?st2 = (Inr u, st3) \<longrightarrow>
          process_device tr loads device_name device_info st = ((device_name, ?merged, None), st3)"
    using w by (auto simp: process_device_disconnect)
  from w len nth log dev show ?thesis
    by blast
qed

theorem status_error_marks_only_its_interface_witness:
  "supported ''cisco_nxos''
   \<and> send_command scripted () ''show inventory all | json'' (sample_world ''n1'', [Connect])
       = (Inr json_rows,
          (\<lparr>on_connect = None,
            replies = [Inl (OtherError ''timed out''),
                       Inr ''Ethernet1/4 is up\<newline>admin state is up''],
            on_disconnect = None\<rparr>,
           [Connect, Send ''show inventory all | json'']))
   \<and> parse_inventory_output sample_loads json_rows ''cisco_nxos'' =
       Inr [(KStr ''Ethernet1/1'',
             \<lparr>Description = PStr ''10G SFP'', PID = PStr ''SFP-10G-SR'', VID = PStr ''V03'',
              SN = PStr ''S1'', Operational_State = ''Unknown''\<rparr>),
            (KStr ''Ethernet1/4'',
             \<lparr>Description = PStr ''1G SFP'', PID = PStr ''N/A'', VID = PStr ''N/A'',
              SN = PStr ''N/A'', Operational_State = ''Unknown''\<rparr>)]
   \<and> (\<exists>st2. inventory_and_status scripted sample_loads () ''cisco_nxos''
                ''show inventory all | json'' (sample_world ''n1'', [Connect])
              = (Inr [(KStr ''Ethernet1/1'',
                       \<lparr>Description = PStr ''10G SFP'', PID = PStr ''SFP-10G-SR'',
                        VID = PStr ''V03'', SN = PStr ''S1'', Operational_State = ''ERROR''\<rparr>),
                      (KStr ''Ethernet1/4'',
                       \<lparr>Description = PStr ''1G SFP'', PID = PStr ''N/A'', VID = PStr ''N/A'',
                        SN = PStr ''N/A'', Operational_State = ''UP''\<rparr>)], st2)
            \<and> snd st2 = [Connect, Send ''show inventory all | json'',
                           Send ''show interface Ethernet1/1'',
                           Send ''show interface Ethernet1/4''])"
proof -
  let ?w1 = "\<lparr>on_connect = None,
            replies = [Inl (OtherError ''timed out''),
                       Inr ''Ethernet1/4 is up\<newline>admin state is up''],
            on_disconnect = None\<rparr>"
  let ?st1 = "(?w1, [Connect, Send ''show inventory all | json''])"
  let ?optics = "[(KStr ''Ethernet1/1'',
             \<lparr>Description = PStr ''10G SFP'', PID = PStr ''SFP-10G-SR'', VID = PStr ''V03'',
              SN = PStr ''S1'', Operational_State = ''Unknown''\<rparr>),
            (KStr ''Ethernet1/4'',
             \<lparr>Description = PStr ''1G SFP'', PID = PStr ''N/A'', VID = PStr ''N/A'',
              SN = PStr ''N/A'', Operational_State = ''Unknown''\<rparr>)]"
  have s: "supported ''cisco_nxos''"
    by (simp add: supported_def)
  have c: "send_command scripted () ''show inventory all | json'' (sample_world ''n1'', [Connect])
       = (Inr json_rows, ?st1)"
    by (simp add: send_command_def scripted_def sample_world_def)
  have rs: "status_replies scripted () (dict_keys ?optics) ?st1
       = [Inl (OtherError ''timed out''), Inr ''Ethernet1/4 is up\<newline>admin state is up'']"
    by (simp add: dict_keys_def send_command_def scripted_def)
  from status_error_marks_only_its_interface [OF s c parse_json_rows]
  obtain merged st2 where
    w: "inventory_and_status scripted sample_loads () ''cisco_nxos''
          ''show inventory all | json'' (sample_world ''n1'', [Connect]) = (Inr merged, st2)"
    and l: "length merged = length ?optics"
    and n: "\<forall>i < length ?optics. merged ! i =
           (fst (?optics ! i),
            (snd (?optics ! i))\<lparr>Operational_State :=
               state_of_reply ''cisco_nxos''
                 (status_replies scripted () (dict_keys ?optics) ?st1 ! i)\<rparr>)"
    and g: "snd st2 = snd ?st1 @ map (\<lambda>k. Send (status_command k)) (dict_keys ?optics)"
    by blast
  from n have n0: "merged ! 0 = (KStr ''Ethernet1/1'',
        \<lparr>Description = PStr ''10G SFP'', PID = PStr ''SFP-10G-SR'',
         VID = PStr ''V03'', SN = PStr ''S1'', Operational_State = ''ERROR''\<rparr>)"
    unfolding rs by (simp add: state_of_reply_def)
  from n have "merged ! 1 = (fst (?optics ! 1),
            (snd (?optics ! 1))\<lparr>Operational_State :=
               state_of_reply ''cisco_nxos''
                 ([Inl (OtherError ''timed out''),
                   Inr ''Ethernet1/4 is up\<newline>admin state is up''] ! 1)\<rparr>)"
    unfolding rs by simp
  then have n1: "merged ! 1 = (KStr ''Ethernet1/4'',
        \<lparr>Description = PStr ''1G SFP'', PID = PStr ''N/A'', VID = PStr ''N/A'',
         SN = PStr ''N/A'', Operational_State = ''UP''\<rparr>)"
    by (simp add: state_of_reply_def nxos_status_def nxos_guard_def nxos_classify_def
        lower_def lower_char_def)
  from l have "merged = [merged ! 0, merged ! 1]"
    by (cases merged; cases "tl merged") auto
  with n0 n1 have m: "merged = [(KStr ''Ethernet1/1'',
        \<lparr>Description = PStr ''10G SFP'', PID = PStr ''SFP-10G-SR'',
         VID = PStr ''V03'', SN = PStr ''S1'', Operational_State = ''ERROR''\<rparr>),
       (KStr ''Ethernet1/4'',
        \<lparr>Description = PStr ''1G SFP'', PID = PStr ''N/A'', VID = PStr ''N/A'',
         SN = PStr ''N/A'', Operational_State = ''UP''\<rparr>)]"
    by simp
  from g have g': "snd st2 = [Connect, Send ''show inventory all | json'',
                           Send ''show interface Ethernet1/1'',
                           Send ''show interface Ethernet1/4'']"
    by (simp add: dict_keys_def status_command_def)
  from w m g' have "\<exists>st2. inventory_and_status scripted sample_loads () ''cisco_nxos''
                ''show inventory all | json'' (sample_world ''n1'', [Connect])
              = (Inr [(KStr ''Ethernet1/1'',
                       \<lparr>Description = PStr ''10G SFP'', PID = PStr ''SFP-10G-SR'',
                        VID = PStr ''V03'', SN = PStr ''S1'', Operational_State = ''ERROR''\<rparr>),
                      (KStr ''Ethernet1/4'',
                       \<lparr>Description = PStr ''1G SFP'', PID = PStr ''N/A'', VID = PStr ''N/A'',
                        SN = PStr ''N/A'', Operational_State = ''UP''\<rparr>)], st2)
            \<and> snd st2 = [Connect, Send ''show inventory all | json'',
                           Send ''show interface Ethernet1/1'',
                           Send ''show interface Ethernet1/4'']"
    by blast
  with s c parse_json_rows show ?thesis
    by blast
qed

text \<open>
  C8, as the spec states it, fails for a device whose session cannot be opened: the
  session is opened first (source line 170), and the failure carries the connection
  error, not an unsupported-platform error.
\<close>

theorem unsupported_platform_connect_error:
  "fst (process_device scripted sample_loads ''sw9'' (device ''juniper_junos'')
         (\<lparr>on_connect = Some (OtherError ''TCP connection to device failed''),
           replies = [], on_disconnect = None\<rparr>, []))
     = (''sw9'', [], Some ''TCP connection to device failed'')
   \<and> \<not> supported ''juniper_junos''"
  by (simp add: process_device_def process_device_try_def get_device_connection_def
      scripted_def device_def supported_def)

text \<open>
  C8, amended. For every device whose platform tag is not one of \<open>cisco_xr\<close>, \<open>cisco_xe\<close>,
  \<open>cisco_nxos\<close> (a device without a tag included): once its session is open,
  \<open>process_device\<close> returns the failure \<open>Unsupported platform: <tag>\<close> with an empty record
  set, which the batch stores in the failure mapping; when the session cannot be opened
  the failure carries the connection error instead. In both cases there are no records
  and the only call made to the transport is the one that opens the session: no command
  is sent.
\<close>

theorem unsupported_platform_never_sends:
  assumes "\<forall>p. device_type device_info = Some p \<longrightarrow> \<not> supported p"
  shows "(\<forall>c st1. get_device_connection tr device_info st = (Inr c, st1) \<longrightarrow>
            process_device tr loads device_name device_info st =
              ((device_name, [],
                Some (''Unsupported platform: '' @ str_platform (device_type device_info))), st1)
            \<and> store_result (fst (process_device tr loads device_name device_info st)) rep =
                rep\<lparr>failed_connections := (failed_connections rep)(device_name \<mapsto>
                  ''Unsupported platform: '' @ str_platform (device_type device_info))\<rparr>)
       \<and> (\<forall>e st1. get_device_connection tr device_info st = (Inl e, st1) \<longrightarrow>
            process_device tr loads device_name device_info st =
              ((device_name, [], Some (str_exn e)), st1))
       \<and> fst (snd (fst (process_device tr loads device_name device_info st))) = []
       \<and> snd (snd (process_device tr loads device_name device_info st)) = snd st @ [Connect]"
proof -
  obtain r st1 where g: "get_device_connection tr device_info st = (r, st1)"
    by (cases "get_device_connection tr device_info st")
  note l = connect_log [OF g]
  show ?thesis
  proof (cases r)
    case (Inl e)
    with g l show ?thesis
      by (simp add: process_device_connect_raises)
  next
    case (Inr c)
    with g l assms show ?thesis
      by (simp add: process_device_unsupported unsupported_def store_result_def)
  qed
qed

theorem unsupported_platform_never_sends_witness:
  "device_type (device ''juniper_junos'') = Some ''juniper_junos''
   \<and> \<not> supported ''juniper_junos''
   \<and> process_device scripted sample_loads ''sw9'' (device ''juniper_junos'')
         (\<lparr>on_connect = None, replies = [], on_disconnect = None\<rparr>, [])
       = ((''sw9'', [], Some ''Unsupported platform: juniper_junos''),
          (\<lparr>on_connect = None, replies = [], on_disconnect = None\<rparr>, [Connect]))"
proof -
  let ?w = "\<lparr>on_connect = None, replies = [], on_disconnect = None\<rparr>"
  have d: "device_type (device ''juniper_junos'') = Some ''juniper_junos''"
    by (simp add: device_def)
  have u: "\<not> supported ''juniper_junos''"
    by (simp add: supported_def)
  have h: "\<forall>p. device_type (device ''juniper_junos'') = Some p \<longrightarrow> \<not> supported p"
    using d u by simp
  have g: "get_device_connection scripted (device ''juniper_junos'') (?w, [])
             = (Inr (), (?w, [Connect]))"
    by (simp add: get_device_connection_def scripted_def)
  from unsupported_platform_never_sends [OF h, of scripted "(?w, [])" sample_loads "''sw9''"] g
  have "process_device scripted sample_loads ''sw9'' (device ''juniper_junos'') (?w, [])
       = ((''sw9'', [], Some (''Unsupported platform: ''
            @ str_platform (device_type (device ''juniper_junos'')))), (?w, [Connect]))"
    by blast
  with d u show ?thesis
    by (simp add: str_platform_def)
qed

text \<open>
  C9, as the spec states it, fails: \<open>connection.disconnect()\<close> stands inside the \<open>try\<close> of
  \<open>process_device\<close> (source line 204), so an exception it raises reaches the handler of
  line 209. Here the inventory and status work of router \<open>r1\<close> completes with one merged
  record, the disconnect raises, and the batch stores \<open>r1\<close> in the failure mapping and
  drops the record.
\<close>

theorem disconnect_error_fails_device:
  "inventory_and_status scripted sample_loads () ''cisco_xr'' ''show inventory''
      (\<lparr>on_connect = None,
        replies = [Inr xr_inventory, Inr ''TenGigE0/0/0/1 is up, line protocol is up''],
        on_disconnect = Some (OtherError ''Socket is closed'')\<rparr>, [Connect])
     = (Inr [(KStr ''TenGigE0/0/0/1'',
              \<lparr>Description = PStr ''10GBASE-LR SFP+'', PID = PStr ''SFP-10G-LR'',
               VID = PStr ''V02'', SN = PStr ''ABC123'', Operational_State = ''UP/UP''\<rparr>)],
        (\<lparr>on_connect = None, replies = [],
          on_disconnect = Some (OtherError ''Socket is closed'')\<rparr>,
         [Connect, Send ''show inventory'', Send ''show interface TenGigE0/0/0/1'']))
   \<and> main_batch scripted sample_loads
        (\<lambda>name. \<lparr>on_connect = None,
           replies = [Inr xr_inventory, Inr ''TenGigE0/0/0/1 is up, line protocol is up''],
           on_disconnect = Some (OtherError ''Socket is closed'')\<rparr>)
        [(''r1'', device ''cisco_xr'')]
     = \<lparr>optics_data = Map.empty, failed_connections = [''r1'' \<mapsto> ''Socket is closed'']\<rparr>"
  by (simp add: main_batch_def run_device_def process_device_def process_device_try_def
      get_device_connection_def send_command_def disconnect_def scripted_def device_def
      inventory_command_def inventory_and_status_def parse_xr_inventory
      get_interface_status_def dict_keys_def status_command_def merge_status_def
      store_result_def xr_status_def xr_classify_def lower_def lower_char_def)

text \<open>
  C9, amended. For every device whose inventory and status work completes, the disconnect
  decides the outcome. When it returns, \<open>process_device\<close> returns the merged record set
  with no error, and the batch stores the device in the success mapping with that record
  set. When it raises, \<open>process_device\<close> returns an empty record set with the text of the
  disconnect error, and the batch stores the device in the failure mapping with that text
  whenever the text is not empty.
\<close>

theorem disconnect_decides_outcome:
  assumes "get_device_connection tr device_info st = (Inr c, st1)"
    and "device_type device_info = Some platform"
    and "inventory_command platform = Some command"
    and "inventory_and_status tr loads c platform command st1 = (Inr optics_info, st2)"
  shows "(\<forall>e st3. disconnect tr c st2 = (Inl e, st3) \<longrightarrow>
            process_device tr loads device_name device_info st
              = ((device_name, [], Some (str_exn e)), st3)
            \<and> (str_exn e \<noteq> [] \<longrightarrow>
                 store_result (fst (process_device tr loads device_name device_info st)) rep
                   = rep\<lparr>failed_connections :=
                          (failed_connections rep)(device_name \<mapsto> str_exn e)\<rparr>))
       \<and> (\<forall>u st3. disconnect tr c st2 = (Inr u, st3) \<longrightarrow>
            process_device tr loads device_name device_info st
              = ((device_name, optics_info, None), st3)
            \<and> store_result (fst (process_device tr loads device_name device_info st)) rep
                 = rep\<lparr>optics_data := (optics_data rep)(device_name \<mapsto> optics_info)\<rparr>)"
  by (auto simp: process_device_disconnect [OF assms] store_result_def)

theorem disconnect_decides_outcome_witness:
  "get_device_connection scripted (device ''cisco_xr'') (sample_world ''r1'', [])
     = (Inr (), (sample_world ''r1'', [Connect]))
   \<and> device_type (device ''cisco_xr'') = Some ''cisco_xr''
   \<and> inventory_command ''cisco_xr'' = Some ''show inventory''
   \<and> inventory_and_status scripted sample_loads () ''cisco_xr'' ''show inventory''
         (sample_world ''r1'', [Connect])
       = (Inr [(KStr ''TenGigE0/0/0/1'',
                \<lparr>Description = PStr ''10GBASE-LR SFP+'', PID = PStr ''SFP-10G-LR'',
                 VID = PStr ''V02'', SN = PStr ''ABC123'', Operational_State = ''UP/UP''\<rparr>)],
          (\<lparr>on_connect = None, replies = [], on_disconnect = None\<rparr>,
           [Connect, Send ''show inventory'', Send ''show interface TenGigE0/0/0/1'']))
   \<and> disconnect scripted ()
         (\<lparr>on_connect = None, replies = [], on_disconnect = None\<rparr>,
          [Connect, Send ''show inventory'', Send ''show interface TenGigE0/0/0/1''])
       = (Inr (),
          (\<lparr>on_connect = None, replies = [], on_disconnect = None\<rparr>,
           [Connect, Send ''show inventory'', Send ''show interface TenGigE0/0/0/1'',
            Disconnect]))
   \<and> store_result
         (fst (process_device scripted sample_loads ''r1'' (device ''cisco_xr'')
                 (sample_world ''r1'', [])))
         \<lparr>optics_data = Map.empty, failed_connections = Map.empty\<rparr>
       = \<lparr>optics_data =
            [''r1'' \<mapsto> [(KStr ''TenGigE0/0/0/1'',
                \<lparr>Description = PStr ''10GBASE-LR SFP+'', PID = PStr ''SFP-10G-LR'',
                 VID = PStr ''V02'', SN = PStr ''ABC123'', Operational_State = ''UP/UP''\<rparr>)]],
          failed_connections = Map.empty\<rparr>"
proof -
  let ?w2 = "\<lparr>on_connect = None, replies = [], on_disconnect = None\<rparr>"
  let ?log2 = "[Connect, Send ''show inventory'', Send ''show interface TenGigE0/0/0/1'']"
  let ?optics = "[(KStr ''TenGigE0/0/0/1'',
                \<lparr>Description = PStr ''10GBASE-LR SFP+'', PID = PStr ''SFP-10G-LR'',
                 VID = PStr ''V02'', SN = PStr ''ABC123'', Operational_State = ''UP/UP''\<rparr>)]"
  have g: "get_device_connection scripted (device ''cisco_xr'') (sample_world ''r1'', [])
     = (Inr (), (sample_world ''r1'', [Connect]))"
    by (simp add: get_device_connection_def scripted_def sample_world_def)
  have t: "device_type (device ''cisco_xr'') = Some ''cisco_xr''"
    by (simp add: device_def)
  have c: "inventory_command ''cisco_xr'' = Some ''show inventory''"
    by (simp add: inventory_command_def)
  have w: "inventory_and_status scripted sample_loads () ''cisco_xr'' ''show inventory''
         (sample_world ''r1'', [Connect]) = (Inr ?optics, (?w2, ?log2))"
    by (simp add: send_command_def scripted_def inventory_and_status_def parse_xr_inventory
        get_interface_status_def dict_keys_def status_command_def merge_status_def
        sample_world_def xr_status_def xr_classify_def lower_def lower_char_def)
  have d: "disconnect scripted () (?w2, ?log2) = (Inr (), (?w2, ?log2 @ [Disconnect]))"
    by (simp add: disconnect_def scripted_def)
  from disconnect_decides_outcome [OF g t c w, of "''r1''"
      "\<lparr>optics_data = Map.empty, failed_connections = Map.empty\<rparr>"] d
  have "store_result
         (fst (process_device scripted sample_loads ''r1'' (device ''cisco_xr'')
                 (sample_world ''r1'', [])))
         \<lparr>optics_data = Map.empty, failed_connections = Map.empty\<rparr>
       = \<lparr>optics_data = Map.empty, failed_connections = Map.empty\<rparr>
           \<lparr>optics_data :=
              (optics_data \<lparr>optics_data = Map.empty, failed_connections = Map.empty\<rparr>)
                (''r1'' \<mapsto> ?optics)\<rparr>"
    by blast
  with g t c w d show ?thesis
    by simp
qed

text \<open>
  C10. A device of the roster whose acquisition sequence ends in an exception with an
  empty \<open>str(e)\<close> is stored by the batch in the success mapping, with an empty record set,
  and not in the failure mapping: \<open>process_device\<close> returns the empty string as the error
  message, and \<open>main\<close> stores by the truth value of that string.
\<close>

theorem empty_message_routed_to_success:
  assumes "distinct (map fst completed)"
    and "(device_name, device_info) \<in> set completed"
    and "fst (process_device_try tr loads device_name device_info (world device_name, [])) = Inl e"
    and "str_exn e = []"
  shows "optics_data (main_batch tr loads world completed) device_name = Some []
       \<and> failed_connections (main_batch tr loads world completed) device_name = None"
proof -
  let ?dev = "(device_name, device_info)"
  from assms(3,4) have r: "run_device tr loads world ?dev = (device_name, [], Some [])"
    by (cases "process_device_try tr loads device_name device_info (world device_name, [])")
      (simp add: run_device_def process_device_def)
  from collect_at [OF assms(1,2), of "\<lparr>optics_data = Map.empty, failed_connections = Map.empty\<rparr>" tr loads world]
  show ?thesis
    by (auto simp: main_batch_def r store_result_def)
qed

theorem empty_message_routed_to_success_witness:
  "distinct (map fst [(''r1'', device ''cisco_xr'')])
   \<and> (''r1'', device ''cisco_xr'') \<in> set [(''r1'', device ''cisco_xr'')]
   \<and> fst (process_device_try scripted sample_loads ''r1'' (device ''cisco_xr'')
            (\<lparr>on_connect = Some (OtherError []), replies = [], on_disconnect = None\<rparr>, []))
       = Inl (OtherError [])
   \<and> str_exn (OtherError []) = []
   \<and> optics_data (main_batch scripted sample_loads
         (\<lambda>name. \<lparr>on_connect = Some (OtherError []), replies = [], on_disconnect = None\<rparr>)
         [(''r1'', device ''cisco_xr'')]) ''r1'' = Some []
   \<and> failed_connections (main_batch scripted sample_loads
         (\<lambda>name. \<lparr>on_connect = Some (OtherError []), replies = [], on_disconnect = None\<rparr>)
         [(''r1'', device ''cisco_xr'')]) ''r1'' = None"
proof -
  let ?w = "\<lambda>name :: string. \<lparr>on_connect = Some (OtherError []), replies = [], on_disconnect = None\<rparr>"
  have d: "distinct (map fst [(''r1'', device ''cisco_xr'')])"
    by simp
  have i: "(''r1'', device ''cisco_xr'') \<in> set [(''r1'', device ''cisco_xr'')]"
    by simp
  have r: "fst (process_device_try scripted sample_loads ''r1'' (device ''cisco_xr'') (?w ''r1'', []))
             = Inl (OtherError [])"
    by (simp add: process_device_try_def get_device_connection_def scripted_def)
  have s: "str_exn (OtherError []) = []"
    by simp
  from empty_message_routed_to_success [OF d i r s] d i r s show ?thesis
    by simp
qed

end
